theory Spec2Isabelle
  imports Main "HOL-Library.Word"
begin

unbundle bit_operations_syntax

section \<open>Machine integers and buffers\<close>

text \<open>
  The updater runs on 32-bit ARM parts: \<open>uint32_t\<close> and \<open>size_t\<close> are 32-bit words,
  \<open>uint16_t\<close> is a 16-bit word and a buffer is a list of bytes. Arithmetic on words
  wraps around, comparison is unsigned, as in the C++ source.
\<close>

type_synonym u8 = "8 word"
type_synonym u16 = "16 word"
type_synonym u32 = "32 word"

text \<open>\<open>memset (buf + off, v, n)\<close> and \<open>memcpy (buf + off, src, n)\<close> on a byte buffer.\<close>

definition memset :: "u8 list \<Rightarrow> nat \<Rightarrow> u8 \<Rightarrow> nat \<Rightarrow> u8 list" where
  "memset buf off v n = take off buf @ replicate n v @ drop (off + n) buf"

definition memcpy :: "u8 list \<Rightarrow> nat \<Rightarrow> u8 list \<Rightarrow> u8 list" where
  "memcpy buf off src = take off buf @ src @ drop (off + length src) buf"

text \<open>Little-endian loads from a byte buffer (the target is little-endian).\<close>

definition le16 :: "u8 list \<Rightarrow> nat \<Rightarrow> u16" where
  "le16 bs off = ucast (bs ! off) OR push_bit 8 (ucast (bs ! (off + 1)))"

definition le32 :: "u8 list \<Rightarrow> nat \<Rightarrow> u32" where
  "le32 bs off =
     ucast (bs ! off) OR push_bit 8 (ucast (bs ! (off + 1))) OR
     push_bit 16 (ucast (bs ! (off + 2))) OR push_bit 24 (ucast (bs ! (off + 3)))"

text \<open>Decimal output of \<open>%u\<close>, \<open>%d\<close> (on a non-negative value) and \<open>PRIu32\<close>.\<close>

definition digit :: "nat \<Rightarrow> char" where
  "digit d = ''0123456789'' ! d"

fun dec :: "nat \<Rightarrow> string" where
  "dec n = (if n < 10 then [digit n] else dec (n div 10) @ [digit (n mod 10)])"

declare dec.simps [simp del]

definition bytes_of_string :: "string \<Rightarrow> u8 list" where
  "bytes_of_string str = map (\<lambda>ch. of_nat (of_char ch)) str"


section \<open>Build configuration\<close>

text \<open>
  The source is one file compiled for several boards. The preprocessor symbols that
  select code (\<open>SAME5x\<close>, \<open>SAM4E\<close>, \<open>SAM4S\<close>, \<open>SAME70\<close>, none of them for the
  older SAM3X boards, and \<open>IAP_VIA_SPI\<close>) and the constants of the header
  \<open>iap.h\<close>, which is not among the sources, are the fields of a configuration.
  \<open>pageSize\<close> is the global the source sets once in \<open>AppMain\<close>, from
  \<open>IFLASH_PAGE_SIZE\<close> or \<open>Flash::GetPageSize ()\<close>. \<open>LockRegionSize\<close> and
  \<open>EraseRegionSize\<close> are what \<open>Flash::GetLockRegionSize ()\<close> and
  \<open>Flash::GetEraseRegionSize ()\<close> return; \<open>sizeofFlashVerifyRequest\<close> is
  \<open>sizeof (FlashVerifyRequest)\<close>.
\<close>

datatype chip = SAM3X | SAM4E | SAM4S | SAME70 | SAME5x

record config =
  chip :: chip
  IAP_VIA_SPI :: bool
  FirmwareFlashStart :: u32
  FirmwareFlashEnd :: u32
  IFLASH_ADDR :: u32
  pageSize :: u32
  blockReadSize :: u32
  maxRetries :: u32
  TransferCompleteDelay :: u32
  TransferTimeout :: u32
  LockRegionSize :: u32
  EraseRegionSize :: u32
  sizeofFlashVerifyRequest :: nat

text \<open>
  Modelled from the spec: the enumeration \<open>ProcessState\<close> is declared in \<open>iap.h\<close>,
  which is not among the sources. The spec lists the states in the order
  Initializing, UnlockingFlash, ErasingFlash, WritingUpgrade, VerifyingChecksum,
  SendingChecksumOk, SendingChecksumError, LockingFlash; \<open>state_index\<close> is the position in
  that order, which is what \<open>(int)state\<close> prints and what \<open>state >= WritingUpgrade\<close>
  compares.
\<close>

datatype ProcessState =
  Initializing | UnlockingFlash | ErasingFlash | WritingUpgrade |
  VerifyingChecksum | SendingChecksumOK | SendingChecksumError | LockingFlash

fun state_index :: "ProcessState \<Rightarrow> nat" where
  "state_index Initializing = 0"
| "state_index UnlockingFlash = 1"
| "state_index ErasingFlash = 2"
| "state_index WritingUpgrade = 3"
| "state_index VerifyingChecksum = 4"
| "state_index SendingChecksumOK = 5"
| "state_index SendingChecksumError = 6"
| "state_index LockingFlash = 7"


section \<open>The hardware and its drivers\<close>

text \<open>
  The flash controller, the SD card with its file system, the SPI peripheral with its DMA
  channel and the millisecond clock are outside the source. They are a parameter: a
  record of functions on a hardware state \<open>'hw\<close> that is left abstract, so that every
  theorem holds for any behaviour of the devices. A function that the source tests for
  success returns a \<open>bool\<close> (\<open>True\<close> for \<open>FLASH_RC_OK\<close>, \<open>FR_OK\<close> or a \<open>true\<close>
  result).

  \<^item> \<open>flash_unlock\<close>, \<open>flash_erase_sector\<close>, \<open>flash_write\<close>, \<open>flash_lock\<close> and
    \<open>flash_clear_gpnvm\<close> are the functions of \<open>flash_efc.h\<close>; \<open>Flash_Unlock\<close>,
    \<open>Flash_Erase\<close>, \<open>Flash_Write\<close> and \<open>Flash_Lock\<close> are \<open>Flash::Unlock\<close> and
    so on of the SAME5x build. Arguments are passed as the source passes them.
  \<^item> \<open>hw_mem\<close> reads a byte of the address space (the flash is memory-mapped).
  \<^item> \<open>hw_spi_arm\<close> is the register programming of \<open>setup_spi\<close> for a transfer of
    the given number of bytes, sending the given bytes of \<open>writeData\<close>;
    \<open>hw_spi_disable\<close> is that of \<open>disable_spi\<close>; \<open>hw_spi_done\<close> is the test of
    \<open>is_spi_transfer_complete\<close> (the flag the interrupt handler sets and the status
    of the DMA channel); \<open>hw_spi_rx\<close> is what the DMA channel has stored in
    \<open>readData\<close>.
  \<^item> \<open>f_stat\<close> returns the size of the file when it is found; \<open>f_read\<close> returns
    the result code and the bytes it has read.
  \<^item> \<open>hw_reboot\<close> is the parameterless \<open>Reset ()\<close> of the core library.
\<close>

record 'hw hardware =
  millis :: "'hw \<Rightarrow> u32 \<times> 'hw"
  hw_mem :: "'hw \<Rightarrow> u32 \<Rightarrow> u8"
  flash_unlock :: "u32 \<Rightarrow> u32 \<Rightarrow> 'hw \<Rightarrow> bool \<times> 'hw"
  flash_erase_sector :: "u32 \<Rightarrow> 'hw \<Rightarrow> bool \<times> 'hw"
  flash_write :: "u32 \<Rightarrow> u8 list \<Rightarrow> nat \<Rightarrow> 'hw \<Rightarrow> bool \<times> 'hw"
  flash_lock :: "u32 \<Rightarrow> u32 \<Rightarrow> 'hw \<Rightarrow> bool \<times> 'hw"
  flash_clear_gpnvm :: "nat \<Rightarrow> 'hw \<Rightarrow> bool \<times> 'hw"
  Flash_Unlock :: "u32 \<Rightarrow> u32 \<Rightarrow> 'hw \<Rightarrow> bool \<times> 'hw"
  Flash_Erase :: "u32 \<Rightarrow> u32 \<Rightarrow> 'hw \<Rightarrow> bool \<times> 'hw"
  Flash_Write :: "u32 \<Rightarrow> u8 list \<Rightarrow> 'hw \<Rightarrow> bool \<times> 'hw"
  Flash_Lock :: "u32 \<Rightarrow> u32 \<Rightarrow> 'hw \<Rightarrow> bool \<times> 'hw"
  hw_spi_arm :: "nat \<Rightarrow> u8 list \<Rightarrow> 'hw \<Rightarrow> bool \<times> 'hw"
  hw_spi_disable :: "'hw \<Rightarrow> bool \<times> 'hw"
  hw_spi_done :: "'hw \<Rightarrow> bool \<times> 'hw"
  hw_spi_rx :: "'hw \<Rightarrow> u8 list"
  f_stat :: "string \<Rightarrow> 'hw \<Rightarrow> u32 option \<times> 'hw"
  f_open :: "string \<Rightarrow> 'hw \<Rightarrow> bool \<times> 'hw"
  f_lseek :: "u32 \<Rightarrow> 'hw \<Rightarrow> bool \<times> 'hw"
  f_read :: "nat \<Rightarrow> 'hw \<Rightarrow> (bool \<times> u8 list) \<times> 'hw"
  f_close :: "'hw \<Rightarrow> bool \<times> 'hw"
  hw_reboot :: "'hw \<Rightarrow> bool \<times> 'hw"

text \<open>
  Every call of a driver function that acts on a device is recorded, in order, with its
  arguments: the trace is how a theorem says that a primitive was or was not invoked.
\<close>

datatype call =
  Call_flash_unlock u32 u32
| Call_flash_erase_sector u32
| Call_flash_write u32 "u8 list" nat
| Call_flash_lock u32 u32
| Call_flash_clear_gpnvm nat
| Call_Flash_Unlock u32 u32
| Call_Flash_Erase u32 u32
| Call_Flash_Write u32 "u8 list"
| Call_Flash_Lock u32 u32
| Call_setup_spi nat "u8 list"
| Call_disable_spi
| Call_f_stat string
| Call_f_open string
| Call_f_lseek u32
| Call_f_read nat
| Call_f_close
| Call_reboot


section \<open>The globals of the program\<close>

text \<open>
  The global variables of the source, with three fields the source does not have: \<open>hw\<close>
  is the state of the devices, \<open>messages\<close> is what \<open>MessageF\<close> has sent to the
  serial port, oldest first, and \<open>calls\<close> is the trace of driver calls.
  \<open>readData\<close> has \<open>blockReadSize\<close> bytes. The static \<open>uf2Buffer\<close> of
  \<open>ReadBlockUf2\<close> is read only right after it is filled and is not a field.
\<close>

record 'hw iap =
  state :: ProcessState
  flashPos :: u32
  retry :: u32
  bytesRead :: u32
  bytesWritten :: u32
  haveDataInBuffer :: bool
  reportNextPercent :: u32
  formatBuffer :: string
  readData :: "u8 list"
  writeData :: "u8 list"
  transferPending :: bool
  transferStartTime :: u32
  transferReadyHigh :: bool
  fwFile :: string
  firmwareFileSize :: u32
  isUf2File :: bool
  hw :: 'hw
  messages :: "string list"
  calls :: "call list"

text \<open>
  How a function of the source ends when it does not return to the main loop:
  \<open>Restarted success\<close> is \<open>Reset (success)\<close>, which reboots and never returns;
  \<open>DivisionByZero\<close> is an integer division by zero, which C++ leaves undefined;
  \<open>NoReturn\<close> is a loop that never ends.
\<close>

datatype exit = Restarted bool | DivisionByZero | NoReturn

type_synonym 'hw outcome = "(exit \<times> 'hw iap) + 'hw iap"

text \<open>A driver call that is traced, and a query of a device that is not.\<close>

definition invoke :: "call \<Rightarrow> ('hw \<Rightarrow> 'a \<times> 'hw) \<Rightarrow> 'hw iap \<Rightarrow> 'a \<times> 'hw iap" where
  "invoke ev f s = (case f (hw s) of (r, h) \<Rightarrow> (r, s\<lparr>hw := h, calls := calls s @ [ev]\<rparr>))"

definition query :: "('hw \<Rightarrow> 'a \<times> 'hw) \<Rightarrow> 'hw iap \<Rightarrow> 'a \<times> 'hw iap" where
  "query f s = (case f (hw s) of (r, h) \<Rightarrow> (r, s\<lparr>hw := h\<rparr>))"

text \<open>The bytes of the address space from \<open>addr\<close> on, as \<open>memcmp\<close> and \<open>CRC16\<close> read them.\<close>

definition mem_bytes :: "(u32 \<Rightarrow> u8) \<Rightarrow> u32 \<Rightarrow> nat \<Rightarrow> u8 list" where
  "mem_bytes m addr n = map (\<lambda>i. m (addr + of_nat i)) [0..<n]"


section \<open>Messages and reset\<close>

text \<open>
  \<open>MessageF\<close> formats into \<open>formatBuffer\<close> (100 characters with the terminator, so
  at most 99 are kept) and prints the buffer as a JSON line. The formatted text is the
  argument. The delays, the activity LED and the ready pin of the host link act on no
  device of the model and are left out.
\<close>

definition MessageF :: "string \<Rightarrow> 'hw iap \<Rightarrow> 'hw iap" where
  "MessageF text s =
     s\<lparr>formatBuffer := take 99 text, messages := messages s @ [take 99 text]\<rparr>"

text \<open>
  \<open>Reset (success)\<close>. After a failure in a state from \<open>WritingUpgrade\<close> on, the last
  message is written to the start of the flash region, the results of the driver calls
  being ignored; then the device reboots.
\<close>

definition Reset :: "config \<Rightarrow> 'hw hardware \<Rightarrow> bool \<Rightarrow> 'hw iap \<Rightarrow> exit \<times> 'hw iap" where
  "Reset c H success s =
     (let s1 =
        (if \<not> success \<and> state_index WritingUpgrade \<le> state_index (state s) then
           (if chip c = SAME5x then
              (let s2 = snd (invoke (Call_Flash_Unlock (FirmwareFlashStart c) (pageSize c))
                               (Flash_Unlock H (FirmwareFlashStart c) (pageSize c)) s)
               in snd (invoke (Call_Flash_Write (FirmwareFlashStart c)
                                 (bytes_of_string (formatBuffer s2)))
                         (Flash_Write H (FirmwareFlashStart c)
                            (bytes_of_string (formatBuffer s2))) s2))
            else
              (let s2 = snd (invoke (Call_flash_unlock (FirmwareFlashStart c)
                                       (FirmwareFlashStart c + pageSize c))
                               (flash_unlock H (FirmwareFlashStart c)
                                  (FirmwareFlashStart c + pageSize c)) s);
                   s3 = snd (invoke (Call_flash_write (FirmwareFlashStart c)
                                       (bytes_of_string (formatBuffer s2)) 1)
                               (flash_write H (FirmwareFlashStart c)
                                  (bytes_of_string (formatBuffer s2)) 1) s2)
               in snd (invoke (Call_flash_clear_gpnvm 1) (flash_clear_gpnvm H 1) s3)))
         else s)
      in (Restarted success, snd (invoke Call_reboot (hw_reboot H) s1)))"


section \<open>The checksum\<close>

definition crc16_table :: "u16 list" where
  "crc16_table = [
    0x0000, 0xC0C1, 0xC181, 0x0140, 0xC301, 0x03C0, 0x0280, 0xC241,
    0xC601, 0x06C0, 0x0780, 0xC741, 0x0500, 0xC5C1, 0xC481, 0x0440,
    0xCC01, 0x0CC0, 0x0D80, 0xCD41, 0x0F00, 0xCFC1, 0xCE81, 0x0E40,
    0x0A00, 0xCAC1, 0xCB81, 0x0B40, 0xC901, 0x09C0, 0x0880, 0xC841,
    0xD801, 0x18C0, 0x1980, 0xD941, 0x1B00, 0xDBC1, 0xDA81, 0x1A40,
    0x1E00, 0xDEC1, 0xDF81, 0x1F40, 0xDD01, 0x1DC0, 0x1C80, 0xDC41,
    0x1400, 0xD4C1, 0xD581, 0x1540, 0xD701, 0x17C0, 0x1680, 0xD641,
    0xD201, 0x12C0, 0x1380, 0xD341, 0x1100, 0xD1C1, 0xD081, 0x1040,
    0xF001, 0x30C0, 0x3180, 0xF141, 0x3300, 0xF3C1, 0xF281, 0x3240,
    0x3600, 0xF6C1, 0xF781, 0x3740, 0xF501, 0x35C0, 0x3480, 0xF441,
    0x3C00, 0xFCC1, 0xFD81, 0x3D40, 0xFF01, 0x3FC0, 0x3E80, 0xFE41,
    0xFA01, 0x3AC0, 0x3B80, 0xFB41, 0x3900, 0xF9C1, 0xF881, 0x3840,
    0x2800, 0xE8C1, 0xE981, 0x2940, 0xEB01, 0x2BC0, 0x2A80, 0xEA41,
    0xEE01, 0x2EC0, 0x2F80, 0xEF41, 0x2D00, 0xEDC1, 0xEC81, 0x2C40,
    0xE401, 0x24C0, 0x2580, 0xE541, 0x2700, 0xE7C1, 0xE681, 0x2640,
    0x2200, 0xE2C1, 0xE381, 0x2340, 0xE101, 0x21C0, 0x2080, 0xE041,
    0xA001, 0x60C0, 0x6180, 0xA141, 0x6300, 0xA3C1, 0xA281, 0x6240,
    0x6600, 0xA6C1, 0xA781, 0x6740, 0xA501, 0x65C0, 0x6480, 0xA441,
    0x6C00, 0xACC1, 0xAD81, 0x6D40, 0xAF01, 0x6FC0, 0x6E80, 0xAE41,
    0xAA01, 0x6AC0, 0x6B80, 0xAB41, 0x6900, 0xA9C1, 0xA881, 0x6840,
    0x7800, 0xB8C1, 0xB981, 0x7940, 0xBB01, 0x7BC0, 0x7A80, 0xBA41,
    0xBE01, 0x7EC0, 0x7F80, 0xBF41, 0x7D00, 0xBDC1, 0xBC81, 0x7C40,
    0xB401, 0x74C0, 0x7580, 0xB541, 0x7700, 0xB7C1, 0xB681, 0x7640,
    0x7200, 0xB2C1, 0xB381, 0x7340, 0xB101, 0x71C0, 0x7080, 0xB041,
    0x5000, 0x90C1, 0x9181, 0x5140, 0x9301, 0x53C0, 0x5280, 0x9241,
    0x9601, 0x56C0, 0x5780, 0x9741, 0x5500, 0x95C1, 0x9481, 0x5440,
    0x9C01, 0x5CC0, 0x5D80, 0x9D41, 0x5F00, 0x9FC1, 0x9E81, 0x5E40,
    0x5A00, 0x9AC1, 0x9B81, 0x5B40, 0x9901, 0x59C0, 0x5880, 0x9841,
    0x8801, 0x48C0, 0x4980, 0x8941, 0x4B00, 0x8BC1, 0x8A81, 0x4A40,
    0x4E00, 0x8EC1, 0x8F81, 0x4F40, 0x8D01, 0x4DC0, 0x4C80, 0x8C41,
    0x4400, 0x84C1, 0x8581, 0x4540, 0x8701, 0x47C0, 0x4680, 0x8641,
    0x8201, 0x42C0, 0x4380, 0x8341, 0x4100, 0x81C1, 0x8081, 0x4040]"

text \<open>
  One round of the loop of \<open>CRC16\<close>: \<open>x = (uint16_t)(Crc ^ buffer[i])\<close>, then
  \<open>Crc = (uint16_t)((Crc >> 8) ^ crc16_table[x & 0x00FF])\<close>. Only the low byte of
  \<open>x\<close> is used, so the result is the same whether \<open>char\<close> is signed or not.
\<close>

definition crc16_round :: "u16 \<Rightarrow> u8 \<Rightarrow> u16" where
  "crc16_round Crc b =
     (let x = Crc XOR ucast b
      in drop_bit 8 Crc XOR crc16_table ! unat (x AND 0x00FF))"

text \<open>\<open>CRC16 (buffer, length)\<close>: the loop runs over the first \<open>length\<close> bytes.\<close>

definition CRC16 :: "u8 list \<Rightarrow> nat \<Rightarrow> u16" where
  "CRC16 buffer len = foldl crc16_round 65535 (take len buffer)"


section \<open>Progress\<close>

text \<open>
  The divisor of \<open>ShowProgress\<close>: the capacity of the flash region in the host-link
  build, the size of the image in the file build (half the file for a UF2 file).
\<close>

definition totalSize :: "config \<Rightarrow> 'hw iap \<Rightarrow> u32" where
  "totalSize c s =
     (if IAP_VIA_SPI c then FirmwareFlashEnd c - FirmwareFlashStart c
      else if isUf2File s then firmwareFileSize s div 2 else firmwareFileSize s)"

definition reportPercentIncrement :: u32 where
  "reportPercentIncrement = 20"

definition percentDone :: "config \<Rightarrow> 'hw iap \<Rightarrow> u32" where
  "percentDone c s = (100 * (flashPos s - FirmwareFlashStart c)) div totalSize c s"

definition ShowProgress :: "config \<Rightarrow> 'hw iap \<Rightarrow> 'hw outcome" where
  "ShowProgress c s =
     (if totalSize c s = 0 then Inl (DivisionByZero, s)
      else if reportNextPercent s \<le> percentDone c s then
        Inr ((MessageF (''Flashing firmware, '' @ dec (unat (percentDone c s)) @ ''% completed'') s)
               \<lparr>reportNextPercent := reportNextPercent s + reportPercentIncrement\<rparr>)
      else Inr s)"


section \<open>Erased sectors\<close>

text \<open>The 32-bit load \<open>*reinterpret_cast<const uint32_t*>(p)\<close>.\<close>

definition load32 :: "(u32 \<Rightarrow> u8) \<Rightarrow> u32 \<Rightarrow> u32" where
  "load32 m p =
     ucast (m p) OR push_bit 8 (ucast (m (p + 1))) OR
     push_bit 16 (ucast (m (p + 2))) OR push_bit 24 (ucast (m (p + 3)))"

text \<open>
  The loop of \<open>IsSectorErased\<close>, from \<open>p\<close> to the limit \<open>addr + sectorSize\<close>. The
  sum and the step \<open>p += sizeof (uint32_t)\<close> wrap around, so the loop may not end:
  \<open>None\<close> is a loop that does not return.
\<close>

partial_function (option) IsSectorErased_from :: "(u32 \<Rightarrow> u8) \<Rightarrow> u32 \<Rightarrow> u32 \<Rightarrow> bool option" where
  "IsSectorErased_from m lim p =
     (if p < lim then
        (if load32 m p \<noteq> 0xFFFFFFFF then Some False
         else IsSectorErased_from m lim (p + 4))
      else Some True)"

declare IsSectorErased_from.simps [code]

definition IsSectorErased :: "(u32 \<Rightarrow> u8) \<Rightarrow> u32 \<Rightarrow> u32 \<Rightarrow> bool option" where
  "IsSectorErased m addr sectorSize = IsSectorErased_from m (addr + sectorSize) addr"


section \<open>The host link\<close>

text \<open>
  \<open>setup_spi\<close> programs the peripheral and the DMA channels, then sets
  \<open>transferPending\<close>, reads the clock into \<open>transferStartTime\<close> and toggles the ready
  line. \<open>dataReceived\<close>, which only the interrupt handler and this function write, is
  part of the hardware state.
\<close>

definition setup_spi :: "'hw hardware \<Rightarrow> nat \<Rightarrow> 'hw iap \<Rightarrow> 'hw iap" where
  "setup_spi H bytesToTransfer s =
     (let s1 = snd (invoke (Call_setup_spi bytesToTransfer (take bytesToTransfer (writeData s)))
                      (hw_spi_arm H bytesToTransfer (take bytesToTransfer (writeData s))) s)
      in case query (millis H) s1 of
           (now, s2) \<Rightarrow>
             s2\<lparr>transferPending := True, transferStartTime := now,
                transferReadyHigh := \<not> transferReadyHigh s2\<rparr>)"

definition disable_spi :: "'hw hardware \<Rightarrow> 'hw iap \<Rightarrow> 'hw iap" where
  "disable_spi H s = snd (invoke Call_disable_spi (hw_spi_disable H) s)"

text \<open>
  \<open>is_spi_transfer_complete\<close>. When the transfer is complete, \<open>readData\<close> holds what
  the DMA channel has stored there.
\<close>

definition is_spi_transfer_complete :: "'hw hardware \<Rightarrow> 'hw iap \<Rightarrow> bool \<times> 'hw iap" where
  "is_spi_transfer_complete H s =
     (case query (hw_spi_done H) s of
        (True, s1) \<Rightarrow>
          (True, s1\<lparr>transferPending := False,
                    readData := memcpy (readData s1) 0 (hw_spi_rx H (hw s1))\<rparr>)
      | (False, s1) \<Rightarrow> (False, s1))"

text \<open>
  A block reader returns \<open>Inl\<close> when it ends in a reset and \<open>Inr (ok, s)\<close> when it
  returns \<open>ok\<close>.
\<close>

type_synonym 'hw read_result = "(exit \<times> 'hw iap) + (bool \<times> 'hw iap)"

text \<open>\<open>ReadBlock\<close> of the host-link build.\<close>

definition ReadBlock_spi :: "config \<Rightarrow> 'hw hardware \<Rightarrow> 'hw iap \<Rightarrow> 'hw read_result" where
  "ReadBlock_spi c H s =
     (if transferPending s then
        (case is_spi_transfer_complete H s of
           (True, s1) \<Rightarrow> Inr (True, s1\<lparr>bytesRead := blockReadSize c\<rparr>)
         | (False, s1) \<Rightarrow>
             (case (if flashPos s1 \<noteq> FirmwareFlashStart c then
                      (case query (millis H) s1 of
                         (now, s2) \<Rightarrow> (TransferCompleteDelay c < now - transferStartTime s2, s2))
                    else (False, s1)) of
                (True, s2) \<Rightarrow>
                  (let s3 = disable_spi H (s2\<lparr>bytesRead := 0\<rparr>)
                   in Inr (True, s3\<lparr>readData :=
                                       memset (readData s3) 0 0xFF (unat (blockReadSize c))\<rparr>))
              | (False, s2) \<Rightarrow>
                  (case query (millis H) s2 of
                     (now, s3) \<Rightarrow>
                       if TransferTimeout c < now - transferStartTime s3 then
                         Inl (Reset c H False
                                (MessageF ''ERROR: Timeout while waiting for response'' s3))
                       else Inr (False, s3))))
      else Inr (False, setup_spi H (unat (blockReadSize c)) s))"


section \<open>The file source\<close>

text \<open>\<open>struct UF2_Block\<close>, 512 bytes, and its three magic numbers.\<close>

record UF2_Block =
  magicStart0 :: u32
  magicStart1 :: u32
  flags :: u32
  targetAddr :: u32
  payloadSize :: u32
  blockNo :: u32
  numBlocks :: u32
  fileSize :: u32
  data :: "u8 list"
  magicEnd :: u32

definition sizeof_UF2_Block :: nat where
  "sizeof_UF2_Block = 512"

definition MagicStart0Val :: u32 where "MagicStart0Val = 0x0A324655"
definition MagicStart1Val :: u32 where "MagicStart1Val = 0x9E5D5157"
definition MagicEndVal :: u32 where "MagicEndVal = 0x0AB16F30"

text \<open>The structure that 512 bytes read into \<open>uf2Buffer\<close> make.\<close>

definition UF2_Block_of_bytes :: "u8 list \<Rightarrow> UF2_Block" where
  "UF2_Block_of_bytes bs =
     \<lparr>magicStart0 = le32 bs 0, magicStart1 = le32 bs 4, flags = le32 bs 8,
      targetAddr = le32 bs 12, payloadSize = le32 bs 16, blockNo = le32 bs 20,
      numBlocks = le32 bs 24, fileSize = le32 bs 28, data = take 476 (drop 32 bs),
      magicEnd = le32 bs 508\<rparr>"

text \<open>
  The \<open>do ... while (bytesRead < blockReadSize)\<close> loop of \<open>ReadBlockUf2\<close>, one record
  of the file per round. \<open>None\<close> is a loop that does not return.
\<close>

partial_function (option) ReadBlockUf2_loop ::
    "config \<Rightarrow> 'hw hardware \<Rightarrow> u32 \<Rightarrow> 'hw iap \<Rightarrow> 'hw read_result option" where
  "ReadBlockUf2_loop c H seekPos s =
     (if seekPos + bytesRead s * 2 = firmwareFileSize s then
        Some (Inr (True, s\<lparr>readData := memset (readData s) (unat (bytesRead s)) 0xFF
                                          (unat (blockReadSize c - bytesRead s))\<rparr>))
      else
        (case invoke (Call_f_read sizeof_UF2_Block) (f_read H sizeof_UF2_Block) s of
           ((ok, bs), s1) \<Rightarrow>
             if \<not> ok then Some (Inr (False, s1\<lparr>retry := retry s1 + 1\<rparr>))
             else if length bs \<noteq> sizeof_UF2_Block then
               Some (Inr (False, s1\<lparr>retry := retry s1 + 1\<rparr>))
             else if magicStart0 (UF2_Block_of_bytes bs) \<noteq> MagicStart0Val
                   \<or> magicStart1 (UF2_Block_of_bytes bs) \<noteq> MagicStart1Val
                   \<or> magicEnd (UF2_Block_of_bytes bs) \<noteq> MagicEndVal then
               Some (Inl (Reset c H False
                            (MessageF (''ERROR: bad UF2 block at offset ''
                                         @ dec (unat (seekPos + bytesRead s1))) s1)))
             else if targetAddr (UF2_Block_of_bytes bs) \<noteq> flashPos s1 + bytesRead s1
                   \<or> payloadSize (UF2_Block_of_bytes bs) \<noteq> 256 then
               Some (Inl (Reset c H False
                            (MessageF (''ERROR: unexpected data in UF2 block at offset ''
                                         @ dec (unat (seekPos + bytesRead s1))) s1)))
             else if bytesRead s1 + 256 < blockReadSize c then
               ReadBlockUf2_loop c H seekPos
                 (s1\<lparr>readData := memcpy (readData s1) (unat (bytesRead s1))
                                     (take 256 (data (UF2_Block_of_bytes bs))),
                     bytesRead := bytesRead s1 + 256\<rparr>)
             else
               Some (Inr (True,
                 s1\<lparr>readData := memcpy (readData s1) (unat (bytesRead s1))
                                     (take 256 (data (UF2_Block_of_bytes bs))),
                     bytesRead := bytesRead s1 + 256\<rparr>))))"

declare ReadBlockUf2_loop.simps [code]

definition ReadBlockUf2 :: "config \<Rightarrow> 'hw hardware \<Rightarrow> 'hw iap \<Rightarrow> 'hw read_result" where
  "ReadBlockUf2 c H s =
     (let seekPos = (flashPos s - FirmwareFlashStart c) * 2
      in case invoke (Call_f_lseek seekPos) (f_lseek H seekPos) s of
           (False, s1) \<Rightarrow> Inr (False, s1\<lparr>retry := retry s1 + 1\<rparr>)
         | (True, s1) \<Rightarrow>
             (case ReadBlockUf2_loop c H seekPos (s1\<lparr>bytesRead := 0\<rparr>) of
                None \<Rightarrow> Inl (NoReturn, s1)
              | Some r \<Rightarrow> r))"

text \<open>\<open>ReadBlock\<close> of the file build.\<close>

definition ReadBlock_file :: "config \<Rightarrow> 'hw hardware \<Rightarrow> 'hw iap \<Rightarrow> 'hw read_result" where
  "ReadBlock_file c H s0 =
     (let s = (if retry s0 \<noteq> 0 then MessageF (''Read file retry #'' @ dec (unat (retry s0))) s0
               else s0)
      in if isUf2File s then ReadBlockUf2 c H s
         else
           (case invoke (Call_f_lseek (flashPos s - FirmwareFlashStart c))
                   (f_lseek H (flashPos s - FirmwareFlashStart c)) s of
              (False, s1) \<Rightarrow> Inr (False, s1\<lparr>retry := retry s1 + 1\<rparr>)
            | (True, s1) \<Rightarrow>
                (case invoke (Call_f_read (unat (blockReadSize c)))
                        (f_read H (unat (blockReadSize c))) s1 of
                   ((ok, bs), s2) \<Rightarrow>
                     (let s3 = s2\<lparr>readData := memcpy (readData s2) 0 bs,
                                   bytesRead := of_nat (length bs)\<rparr>
                      in if \<not> ok then Inr (False, s3\<lparr>retry := retry s3 + 1\<rparr>)
                         else if bytesRead s3 < blockReadSize c then
                           Inr (True, s3\<lparr>readData :=
                                  memset (readData s3) (unat (bytesRead s3)) 0xFF
                                    (unat (blockReadSize c - bytesRead s3))\<rparr>)
                         else Inr (True, s3)))))"

definition ReadBlock :: "config \<Rightarrow> 'hw hardware \<Rightarrow> 'hw iap \<Rightarrow> 'hw read_result" where
  "ReadBlock c H s = (if IAP_VIA_SPI c then ReadBlock_spi c H s else ReadBlock_file c H s)"

definition closeBinary :: "'hw hardware \<Rightarrow> 'hw iap \<Rightarrow> 'hw iap" where
  "closeBinary H s = snd (invoke Call_f_close (f_close H) s)"

text \<open>\<open>openBinary\<close>: the file must exist, must not be larger than the region (twice the
  region for a UF2 file) and must open.\<close>

definition openBinary :: "config \<Rightarrow> 'hw hardware \<Rightarrow> 'hw iap \<Rightarrow> 'hw outcome" where
  "openBinary c H s =
     (case invoke (Call_f_stat (fwFile s)) (f_stat H (fwFile s)) s of
        (None, s1) \<Rightarrow>
          Inl (Reset c H False (MessageF (''ERROR: Could not find file '' @ fwFile s1) s1))
      | (Some fsize, s1) \<Rightarrow>
          (let maxFirmwareFileSize =
                 (if isUf2File s1 then (FirmwareFlashEnd c - FirmwareFlashStart c) * 2
                  else FirmwareFlashEnd c - FirmwareFlashStart c)
           in if maxFirmwareFileSize < fsize then
                Inl (Reset c H False (MessageF (''ERROR: File '' @ fwFile s1 @ '' is too big'') s1))
              else
                (case invoke (Call_f_open (fwFile s1)) (f_open H (fwFile s1))
                        (s1\<lparr>firmwareFileSize := fsize\<rparr>) of
                   (False, s2) \<Rightarrow>
                     Inl (Reset c H False
                            (MessageF (''ERROR: Could not open file '' @ fwFile s2) s2))
                 | (True, s2) \<Rightarrow> Inr (MessageF (''File '' @ fwFile s2 @ '' opened'') s2))))"


section \<open>The state machine\<close>

text \<open>
  \<open>writeBinary\<close> is one call of the main loop. Each \<open>case\<close> of its \<open>switch\<close> is a
  function of its own here; where the preprocessor selects between drivers, the choice
  is made on the configuration.
\<close>

subsection \<open>UnlockingFlash\<close>

definition case_UnlockingFlash :: "config \<Rightarrow> 'hw hardware \<Rightarrow> 'hw iap \<Rightarrow> 'hw outcome" where
  "case_UnlockingFlash c H s =
     (if chip c = SAME5x then
        (let unlockStart = FirmwareFlashStart c AND NOT (LockRegionSize c - 1)
         in case invoke (Call_Flash_Unlock unlockStart (FirmwareFlashEnd c - unlockStart))
                   (Flash_Unlock H unlockStart (FirmwareFlashEnd c - unlockStart)) s of
              (True, s1) \<Rightarrow>
                Inr ((MessageF ''Erasing flash'' (s1\<lparr>flashPos := FirmwareFlashStart c\<rparr>))
                       \<lparr>state := ErasingFlash\<rparr>)
            | (False, s1) \<Rightarrow> Inr (s1\<lparr>retry := retry s1 + 1\<rparr>))
      else
        (case invoke (Call_flash_unlock (flashPos s) (flashPos s + pageSize c - 1))
                (flash_unlock H (flashPos s) (flashPos s + pageSize c - 1)) s of
           (False, s1) \<Rightarrow> Inr (s1\<lparr>retry := retry s1 + 1\<rparr>)
         | (True, s1) \<Rightarrow>
             (let s2 = s1\<lparr>flashPos := flashPos s1 + pageSize c, retry := 0\<rparr>
              in if FirmwareFlashEnd c \<le> flashPos s2 then
                   (if chip c = SAM3X then
                      Inr (s2\<lparr>flashPos := FirmwareFlashStart c,
                              bytesWritten := blockReadSize c, state := WritingUpgrade\<rparr>)
                    else
                      Inr ((MessageF ''Erasing flash'' (s2\<lparr>flashPos := FirmwareFlashStart c\<rparr>))
                             \<lparr>state := ErasingFlash\<rparr>))
                 else Inr s2)))"

subsection \<open>ErasingFlash\<close>

text \<open>The size of the sector at the cursor.\<close>

definition sectorSize :: "config \<Rightarrow> u32 \<Rightarrow> u32" where
  "sectorSize c pos =
     (case chip c of
        SAME5x \<Rightarrow> EraseRegionSize c
      | SAME70 \<Rightarrow>
          (if pos - IFLASH_ADDR c < 16 * 1024 then 8 * 1024
           else if pos - IFLASH_ADDR c = 16 * 1024 then 112 * 1024 else 128 * 1024)
      | _ \<Rightarrow>
          (if pos - IFLASH_ADDR c < 16 * 1024 then 8 * 1024
           else if pos - IFLASH_ADDR c = 16 * 1024 then 48 * 1024 else 64 * 1024))"

text \<open>The erase primitive of the build: \<open>Flash::Erase\<close> or \<open>flash_erase_sector\<close>.\<close>

definition erase_call :: "config \<Rightarrow> u32 \<Rightarrow> call" where
  "erase_call c pos =
     (if chip c = SAME5x then Call_Flash_Erase pos (sectorSize c pos)
      else Call_flash_erase_sector pos)"

definition erase_primitive :: "config \<Rightarrow> 'hw hardware \<Rightarrow> u32 \<Rightarrow> 'hw \<Rightarrow> bool \<times> 'hw" where
  "erase_primitive c H pos =
     (if chip c = SAME5x then Flash_Erase H pos (sectorSize c pos)
      else flash_erase_sector H pos)"

text \<open>The end of the case: back to the start of the region once the cursor has left it.\<close>

definition erase_region_end :: "config \<Rightarrow> 'hw iap \<Rightarrow> 'hw iap" where
  "erase_region_end c s =
     (if FirmwareFlashEnd c \<le> flashPos s then
        (MessageF ''Writing data''
           (s\<lparr>flashPos := FirmwareFlashStart c, haveDataInBuffer := False,
              transferPending := (if IAP_VIA_SPI c then False else transferPending s)\<rparr>))
          \<lparr>state := WritingUpgrade\<rparr>
      else s)"

text \<open>The check after the erase or after the skip.\<close>

definition erase_recheck :: "config \<Rightarrow> 'hw hardware \<Rightarrow> 'hw iap \<Rightarrow> 'hw outcome" where
  "erase_recheck c H s =
     (case IsSectorErased (hw_mem H (hw s)) (flashPos s) (sectorSize c (flashPos s)) of
        None \<Rightarrow> Inl (NoReturn, s)
      | Some True \<Rightarrow>
          Inr (erase_region_end c
                 (s\<lparr>retry := 0, flashPos := flashPos s + sectorSize c (flashPos s)\<rparr>))
      | Some False \<Rightarrow> Inr (erase_region_end c (s\<lparr>retry := retry s + 1\<rparr>)))"

definition case_ErasingFlash :: "config \<Rightarrow> 'hw hardware \<Rightarrow> 'hw iap \<Rightarrow> 'hw outcome" where
  "case_ErasingFlash c H s0 =
     (let s = (if retry s0 \<noteq> 0 then MessageF (''Erase retry #'' @ dec (unat (retry s0))) s0
               else s0)
      in case IsSectorErased (hw_mem H (hw s)) (flashPos s) (sectorSize c (flashPos s)) of
           None \<Rightarrow> Inl (NoReturn, s)
         | Some True \<Rightarrow> erase_recheck c H s
         | Some False \<Rightarrow>
             (case invoke (erase_call c (flashPos s)) (erase_primitive c H (flashPos s)) s of
                (True, s1) \<Rightarrow> erase_recheck c H s1
              | (False, s1) \<Rightarrow> Inr (erase_region_end c (s1\<lparr>retry := retry s1 + 1\<rparr>))))"

subsection \<open>WritingUpgrade\<close>

text \<open>The first part of the case: a block is read when none is buffered.\<close>

definition fetch_block :: "config \<Rightarrow> 'hw hardware \<Rightarrow> 'hw iap \<Rightarrow> 'hw read_result" where
  "fetch_block c H s =
     (if \<not> haveDataInBuffer s then
        (case ReadBlock c H s of
           Inl e \<Rightarrow> Inl e
         | Inr (False, s1) \<Rightarrow> Inr (False, s1)
         | Inr (True, s1) \<Rightarrow>
             Inr (True, s1\<lparr>haveDataInBuffer := True, retry := 0, bytesWritten := 0\<rparr>))
      else Inr (True, s))"

text \<open>The page of \<open>readData\<close> at \<open>bytesWritten\<close>, the source of the write and of \<open>memcmp\<close>.\<close>

definition page_data :: "config \<Rightarrow> 'hw iap \<Rightarrow> u8 list" where
  "page_data c s = take (unat (pageSize c)) (drop (unat (bytesWritten s)) (readData s))"

text \<open>The write primitive of the build: \<open>Flash::Write\<close>, or \<open>flash_write\<close> with its
  last argument 0 (1 on the boards without an erase step).\<close>

definition write_call :: "config \<Rightarrow> u32 \<Rightarrow> u8 list \<Rightarrow> call" where
  "write_call c pos bs =
     (if chip c = SAME5x then Call_Flash_Write pos bs
      else Call_flash_write pos bs (if chip c = SAM3X then 1 else 0))"

definition write_primitive ::
    "config \<Rightarrow> 'hw hardware \<Rightarrow> u32 \<Rightarrow> u8 list \<Rightarrow> 'hw \<Rightarrow> bool \<times> 'hw" where
  "write_primitive c H pos bs =
     (if chip c = SAME5x then Flash_Write H pos bs
      else flash_write H pos bs (if chip c = SAM3X then 1 else 0))"

text \<open>What follows a verified page: the block is retired when all of it is written, and
  the state changes after the last block.\<close>

definition block_done :: "config \<Rightarrow> 'hw hardware \<Rightarrow> 'hw iap \<Rightarrow> 'hw iap" where
  "block_done c H s =
     (if bytesWritten s = blockReadSize c then
        (if bytesRead s < blockReadSize c then
           (if IAP_VIA_SPI c then
              (setup_spi H (sizeofFlashVerifyRequest c) (s\<lparr>haveDataInBuffer := False\<rparr>))
                \<lparr>state := VerifyingChecksum\<rparr>
            else (closeBinary H (s\<lparr>haveDataInBuffer := False\<rparr>))\<lparr>state := LockingFlash\<rparr>)
         else s\<lparr>haveDataInBuffer := False\<rparr>)
      else s)"

text \<open>The second part of the case: one page is written and compared with its source.\<close>

definition write_page :: "config \<Rightarrow> 'hw hardware \<Rightarrow> 'hw iap \<Rightarrow> 'hw outcome" where
  "write_page c H s0 =
     (let s = (if retry s0 \<noteq> 0 then MessageF (''Flash write retry #'' @ dec (unat (retry s0))) s0
               else s0)
      in case invoke (write_call c (flashPos s) (page_data c s))
                (write_primitive c H (flashPos s) (page_data c s)) s of
           (False, s1) \<Rightarrow> Inr (s1\<lparr>retry := retry s1 + 1\<rparr>)
         | (True, s1) \<Rightarrow>
             if page_data c s1 \<noteq> mem_bytes (hw_mem H (hw s1)) (flashPos s1) (unat (pageSize c))
             then Inr (s1\<lparr>retry := retry s1 + 1\<rparr>)
             else
               (case ShowProgress c
                       (s1\<lparr>retry := 0, bytesWritten := bytesWritten s1 + pageSize c,
                           flashPos := flashPos s1 + pageSize c\<rparr>) of
                  Inl e \<Rightarrow> Inl e
                | Inr s2 \<Rightarrow> Inr (block_done c H s2)))"

definition case_WritingUpgrade :: "config \<Rightarrow> 'hw hardware \<Rightarrow> 'hw iap \<Rightarrow> 'hw outcome" where
  "case_WritingUpgrade c H s =
     (case fetch_block c H s of
        Inl e \<Rightarrow> Inl e
      | Inr (False, s1) \<Rightarrow> Inr s1
      | Inr (True, s1) \<Rightarrow> write_page c H s1)"

subsection \<open>The checksum exchange of the host link\<close>

text \<open>
  Modelled from the spec: \<open>struct FlashVerifyRequest\<close> is declared in \<open>iap.h\<close>, which
  is not among the sources. The spec gives it as \<open>{firmwareLength: u32, crc16: u16}\<close>: the
  length is at offset 0 and the checksum at offset 4 of \<open>readData\<close>.
\<close>

definition request_firmwareLength :: "u8 list \<Rightarrow> u32" where
  "request_firmwareLength buf = le32 buf 0"

definition request_crc16 :: "u8 list \<Rightarrow> u16" where
  "request_crc16 buf = le16 buf 4"

definition case_VerifyingChecksum :: "config \<Rightarrow> 'hw hardware \<Rightarrow> 'hw iap \<Rightarrow> 'hw outcome" where
  "case_VerifyingChecksum c H s =
     (case query (millis H) s of
        (now, s1) \<Rightarrow>
          if TransferTimeout c < now - transferStartTime s1 then
            Inl (Reset c H False (MessageF ''Timeout while waiting for checksum'' s1))
          else
            (case is_spi_transfer_complete H s1 of
               (False, s2) \<Rightarrow> Inr s2
             | (True, s2) \<Rightarrow>
                 (let crc16 = CRC16 (mem_bytes (hw_mem H (hw s2)) (FirmwareFlashStart c)
                                       (unat (request_firmwareLength (readData s2))))
                                (unat (request_firmwareLength (readData s2)));
                      s3 = (if request_crc16 (readData s2) = crc16 then
                              s2\<lparr>writeData := (writeData s2)[0 := 0x0C],
                                 state := SendingChecksumOK\<rparr>
                            else
                              (MessageF ''CRC mismatch'' s2)
                                \<lparr>writeData := (writeData s2)[0 := 0xFF],
                                 state := SendingChecksumError\<rparr>)
                  in Inr (setup_spi H 1 (s3\<lparr>retry := 0\<rparr>)))))"

definition case_SendingChecksumOK :: "config \<Rightarrow> 'hw hardware \<Rightarrow> 'hw iap \<Rightarrow> 'hw outcome" where
  "case_SendingChecksumOK c H s =
     (case query (millis H) s of
        (now, s1) \<Rightarrow>
          if TransferTimeout c < now - transferStartTime s1 then
            Inr ((MessageF ''Timeout while exchanging checksum acknowledgement'' s1)
                   \<lparr>state := LockingFlash\<rparr>)
          else
            (case is_spi_transfer_complete H s1 of
               (False, s2) \<Rightarrow> Inr s2
             | (True, s2) \<Rightarrow> Inr (s2\<lparr>state := LockingFlash\<rparr>)))"

definition case_SendingChecksumError :: "config \<Rightarrow> 'hw hardware \<Rightarrow> 'hw iap \<Rightarrow> 'hw outcome" where
  "case_SendingChecksumError c H s =
     (case query (millis H) s of
        (now, s1) \<Rightarrow>
          if TransferTimeout c < now - transferStartTime s1 then
            Inl (Reset c H False (MessageF ''Timeout while reporting CRC error'' s1))
          else
            (case is_spi_transfer_complete H s1 of
               (False, s2) \<Rightarrow> Inr s2
             | (True, s2) \<Rightarrow>
                 Inr (s2\<lparr>flashPos := FirmwareFlashStart c, state := WritingUpgrade,
                         retry := 0\<rparr>)))"

subsection \<open>LockingFlash\<close>

definition case_LockingFlash :: "config \<Rightarrow> 'hw hardware \<Rightarrow> 'hw iap \<Rightarrow> 'hw outcome" where
  "case_LockingFlash c H s =
     (if chip c = SAME5x then
        (let lockStart = FirmwareFlashStart c AND NOT (LockRegionSize c - 1)
         in case invoke (Call_Flash_Lock lockStart (FirmwareFlashEnd c - lockStart))
                   (Flash_Lock H lockStart (FirmwareFlashEnd c - lockStart)) s of
              (True, s1) \<Rightarrow>
                Inl (Reset c H True (MessageF ''Update successful! Rebooting...'' s1))
            | (False, s1) \<Rightarrow> Inr (s1\<lparr>retry := retry s1 + 1\<rparr>))
      else
        (case invoke (Call_flash_lock (flashPos s) (flashPos s + pageSize c - 1))
                (flash_lock H (flashPos s) (flashPos s + pageSize c - 1)) s of
           (False, s1) \<Rightarrow> Inr (s1\<lparr>retry := retry s1 + 1\<rparr>)
         | (True, s1) \<Rightarrow>
             (let s2 = s1\<lparr>flashPos := flashPos s1 + pageSize c\<rparr>
              in if FirmwareFlashEnd c \<le> flashPos s2 then
                   Inl (Reset c H True (MessageF ''Update successful! Rebooting...'' s2))
                 else Inr (s2\<lparr>retry := 0\<rparr>))))"

subsection \<open>One call of the main loop\<close>

text \<open>
  The retry check comes first: \<open>Reset (false)\<close> does not return, so the \<open>switch\<close> runs
  only when \<open>retry\<close> is within \<open>maxRetries\<close>. \<open>Initializing\<close> falls through into
  \<open>UnlockingFlash\<close>. A state whose \<open>case\<close> the build does not compile matches no
  label and does nothing.
\<close>

definition writeBinary :: "config \<Rightarrow> 'hw hardware \<Rightarrow> 'hw iap \<Rightarrow> 'hw outcome" where
  "writeBinary c H s =
     (if maxRetries c < retry s then
        Inl (Reset c H False
               (MessageF (''ERROR: Operation '' @ dec (state_index (state s)) @ '' failed after ''
                            @ dec (unat (maxRetries c)) @ '' retries'') s))
      else
        (case state s of
           Initializing \<Rightarrow>
             case_UnlockingFlash c H ((MessageF ''Unlocking flash'' s)\<lparr>state := UnlockingFlash\<rparr>)
         | UnlockingFlash \<Rightarrow> case_UnlockingFlash c H s
         | ErasingFlash \<Rightarrow> if chip c = SAM3X then Inr s else case_ErasingFlash c H s
         | WritingUpgrade \<Rightarrow> case_WritingUpgrade c H s
         | VerifyingChecksum \<Rightarrow> if IAP_VIA_SPI c then case_VerifyingChecksum c H s else Inr s
         | SendingChecksumOK \<Rightarrow> if IAP_VIA_SPI c then case_SendingChecksumOK c H s else Inr s
         | SendingChecksumError \<Rightarrow>
             if IAP_VIA_SPI c then case_SendingChecksumError c H s else Inr s
         | LockingFlash \<Rightarrow> case_LockingFlash c H s))"


section \<open>Observing an outcome\<close>

definition exit_of :: "'hw outcome \<Rightarrow> exit option" where
  "exit_of r = (case r of Inl (e, s) \<Rightarrow> Some e | Inr s \<Rightarrow> None)"

definition final :: "'hw outcome \<Rightarrow> 'hw iap" where
  "final r = (case r of Inl (e, s) \<Rightarrow> s | Inr s \<Rightarrow> s)"

text \<open>
  A run of \<open>ShowProgress\<close>: it is called once for each cursor of the list, in order, as
  \<open>WritingUpgrade\<close> calls it after each verified page.
\<close>

fun progress_run :: "config \<Rightarrow> 'hw iap \<Rightarrow> u32 list \<Rightarrow> 'hw outcome" where
  "progress_run c s [] = Inr s"
| "progress_run c s (pos # rest) =
     (case ShowProgress c (s\<lparr>flashPos := pos\<rparr>) of
        Inl e \<Rightarrow> Inl e
      | Inr s' \<Rightarrow> progress_run c s' rest)"

definition progress_text :: "nat \<Rightarrow> string" where
  "progress_text percent = ''Flashing firmware, '' @ dec percent @ ''% completed''"


section \<open>Reference checksums\<close>

text \<open>
  The bit-by-bit CRC-16 with the reflected polynomial \<open>0xA001\<close> (the polynomial
  \<open>0x8005\<close> of CRC-16/ARC, processed low bit first) and no final XOR, from a given
  initial value. This definition follows the description of the algorithm, not the
  source. With the initial value \<open>0x0000\<close> it is CRC-16/ARC, with \<open>0xFFFF\<close> it is
  CRC-16/MODBUS.
\<close>

definition crc16_shift :: "u16 \<Rightarrow> u16" where
  "crc16_shift crc = (if bit crc 0 then drop_bit 1 crc XOR 0xA001 else drop_bit 1 crc)"

definition crc16_bitwise_round :: "u16 \<Rightarrow> u8 \<Rightarrow> u16" where
  "crc16_bitwise_round crc b = (crc16_shift ^^ 8) (crc XOR ucast b)"

definition crc16_reference :: "u16 \<Rightarrow> u8 list \<Rightarrow> u16" where
  "crc16_reference init bs = foldl crc16_bitwise_round init bs"

definition CRC16_ARC_reference :: "u8 list \<Rightarrow> u16" where
  "CRC16_ARC_reference bs = crc16_reference 0x0000 bs"

definition CRC16_MODBUS_reference :: "u8 list \<Rightarrow> u16" where
  "CRC16_MODBUS_reference bs = crc16_reference 0xFFFF bs"


section \<open>A simulated board\<close>

text \<open>
  A concrete hardware on which the functions above can be run: a memory, a clock that
  stands still, a file, and switches that make the flash functions and the file functions
  fail or make the flash ignore what is written. It instantiates the general theorems at
  concrete inputs.
\<close>

record sim =
  sim_mem :: "u32 \<Rightarrow> u8"
  sim_now :: u32
  sim_flash_ok :: bool
  sim_flash_works :: bool
  sim_file_found :: bool
  sim_file :: "u8 list"
  sim_pos :: nat
  sim_io_ok :: bool
  sim_spi_done :: bool
  sim_spi_rx :: "u8 list"

definition store :: "(u32 \<Rightarrow> u8) \<Rightarrow> u32 \<Rightarrow> u8 list \<Rightarrow> u32 \<Rightarrow> u8" where
  "store m addr bs = (\<lambda>x. if unat (x - addr) < length bs then bs ! unat (x - addr) else m x)"

definition sim_program :: "u32 \<Rightarrow> u8 list \<Rightarrow> sim \<Rightarrow> bool \<times> sim" where
  "sim_program addr bs h =
     (sim_flash_ok h,
      if sim_flash_works h then h\<lparr>sim_mem := store (sim_mem h) addr bs\<rparr> else h)"

definition sim_hardware :: "sim hardware" where
  "sim_hardware =
     \<lparr>millis = (\<lambda>h. (sim_now h, h)),
      hw_mem = sim_mem,
      flash_unlock = (\<lambda>a b h. (sim_flash_ok h, h)),
      flash_erase_sector = (\<lambda>a h. (sim_flash_ok h, h)),
      flash_write = (\<lambda>a bs e. sim_program a bs),
      flash_lock = (\<lambda>a b h. (sim_flash_ok h, h)),
      flash_clear_gpnvm = (\<lambda>n h. (True, h)),
      Flash_Unlock = (\<lambda>a n h. (sim_flash_ok h, h)),
      Flash_Erase = (\<lambda>a n. sim_program a (replicate (unat n) 0xFF)),
      Flash_Write = sim_program,
      Flash_Lock = (\<lambda>a n h. (sim_flash_ok h, h)),
      hw_spi_arm = (\<lambda>n tx h. (True, h)),
      hw_spi_disable = (\<lambda>h. (True, h)),
      hw_spi_done = (\<lambda>h. (sim_spi_done h, h)),
      hw_spi_rx = sim_spi_rx,
      f_stat = (\<lambda>name h. (if sim_file_found h then Some (of_nat (length (sim_file h))) else None, h)),
      f_open = (\<lambda>name h. (sim_file_found h, h\<lparr>sim_pos := 0\<rparr>)),
      f_lseek = (\<lambda>pos h. (sim_io_ok h, h\<lparr>sim_pos := unat pos\<rparr>)),
      f_read = (\<lambda>n h. ((sim_io_ok h, take n (drop (sim_pos h) (sim_file h))),
                         h\<lparr>sim_pos := sim_pos h + n\<rparr>)),
      f_close = (\<lambda>h. (True, h)),
      hw_reboot = (\<lambda>h. (True, h))\<rparr>"

text \<open>A board whose flash is erased, with an empty file, and on which everything works.\<close>

definition sim_blank :: sim where
  "sim_blank =
     \<lparr>sim_mem = (\<lambda>a. 0xFF), sim_now = 0, sim_flash_ok = True, sim_flash_works = True,
      sim_file_found = True, sim_file = [], sim_pos = 0, sim_io_ok = True,
      sim_spi_done = False, sim_spi_rx = []\<rparr>"

text \<open>
  Two builds with small but consistent numbers: a file build for a SAM4E board and a
  host-link build for a SAME5x board. The region has four pages of eight bytes and a
  block has two pages.
\<close>

definition cfg_file :: config where
  "cfg_file =
     \<lparr>chip = SAM4E, IAP_VIA_SPI = False, FirmwareFlashStart = 0x400000,
      FirmwareFlashEnd = 0x400020, IFLASH_ADDR = 0x400000, pageSize = 8,
      blockReadSize = 16, maxRetries = 5, TransferCompleteDelay = 400,
      TransferTimeout = 2000, LockRegionSize = 8, EraseRegionSize = 16,
      sizeofFlashVerifyRequest = 8\<rparr>"

definition cfg_spi :: config where
  "cfg_spi = cfg_file\<lparr>chip := SAME5x, IAP_VIA_SPI := True\<rparr>"

text \<open>The globals as they are when the main loop starts, on a given board.\<close>

definition start_state :: "config \<Rightarrow> sim \<Rightarrow> sim iap" where
  "start_state c h =
     \<lparr>state = Initializing, flashPos = FirmwareFlashStart c, retry = 0, bytesRead = 0,
      bytesWritten = 0, haveDataInBuffer = False,
      reportNextPercent = reportPercentIncrement, formatBuffer = ''IAP started'',
      readData = replicate (unat (blockReadSize c)) 0,
      writeData = replicate (unat (blockReadSize c)) 0x1A,
      transferPending = False, transferStartTime = 0, transferReadyHigh = False,
      fwFile = ''0:/firmware.bin'', firmwareFileSize = 0, isUf2File = False,
      hw = h, messages = [''IAP started''], calls = []\<rparr>"


section \<open>Exits\<close>

text \<open>
  The ways a function of the source can fail to return: a loop that does not end, a
  division by zero, or \<open>Reset\<close> called right after a \<open>MessageF\<close>.
\<close>

definition known_exit :: "config \<Rightarrow> 'hw hardware \<Rightarrow> (exit \<times> 'hw iap) + 'a \<Rightarrow> bool" where
  "known_exit c H r =
     (\<forall>x. r = Inl x \<longrightarrow>
        fst x = NoReturn \<or> fst x = DivisionByZero
        \<or> (\<exists>b msg s1. x = Reset c H b (MessageF msg s1)))"

text \<open>Concrete states of the simulated board: the retries are used up while unlocking,
  and while writing.\<close>

definition st_unlock_exhausted :: "sim iap" where
  "st_unlock_exhausted = (start_state cfg_file sim_blank)\<lparr>state := UnlockingFlash, retry := 6\<rparr>"

definition st_write_exhausted :: "sim iap" where
  "st_write_exhausted = (start_state cfg_file sim_blank)\<lparr>state := WritingUpgrade, retry := 6\<rparr>"


text \<open>Concrete states in \<open>WritingUpgrade\<close>: a block of sixteen bytes is buffered and none
  of it is written yet; and no block is buffered and the file is empty.\<close>

definition st_page :: "sim \<Rightarrow> sim iap" where
  "st_page h =
     (start_state cfg_file h)
       \<lparr>state := WritingUpgrade, haveDataInBuffer := True, bytesRead := 16,
        firmwareFileSize := 16,
        readData := [0xDE, 0xAD, 0xBE, 0xEF, 0x01, 0x02, 0x03, 0x04,
                     0x05, 0x06, 0x07, 0x08, 0x09, 0x0A, 0x0B, 0x0C]\<rparr>"

definition st_empty_write :: "sim iap" where
  "st_empty_write = (start_state cfg_file sim_blank)\<lparr>state := WritingUpgrade\<rparr>"

definition st_empty_fetched :: "sim iap" where
  "st_empty_fetched =
     st_empty_write
       \<lparr>hw := sim_blank\<lparr>sim_pos := 16\<rparr>, calls := [Call_f_lseek 0, Call_f_read 16],
        readData := replicate 16 0xFF, bytesRead := 0, haveDataInBuffer := True,
        retry := 0, bytesWritten := 0\<rparr>"


text \<open>Concrete states in \<open>ErasingFlash\<close> on the SAME5x build, and a board whose flash
  holds zeros.\<close>

definition st_erase :: "sim \<Rightarrow> sim iap" where
  "st_erase h = (start_state cfg_spi h)\<lparr>state := ErasingFlash\<rparr>"

definition sim_dirty :: sim where
  "sim_dirty = sim_blank\<lparr>sim_mem := (\<lambda>a. 0x00)\<rparr>"


section \<open>The checksum is the bitwise CRC-16 started from all ones\<close>

lemma funpow_8: "(f ^^ 8) x = f (f (f (f (f (f (f (f x)))))))"
  by (simp add: numeral_eq_Suc)

lemma drop_bit_xor_u16: "drop_bit n (a XOR b) = drop_bit n a XOR drop_bit n (b::u16)"
  by (rule bit_eqI) (simp add: bit_drop_bit_eq bit_xor_iff)

lemma crc16_shift_xor: "crc16_shift (a XOR b) = crc16_shift a XOR crc16_shift b"
  unfolding crc16_shift_def drop_bit_xor_u16 bit_xor_iff
  by (simp add: xor.commute xor.left_commute xor.assoc)

lemma crc16_shift_pow_xor:
  "(crc16_shift ^^ k) (a XOR b) = (crc16_shift ^^ k) a XOR (crc16_shift ^^ k) b"
  by (induction k arbitrary: a b) (simp_all add: funpow_swap1 crc16_shift_xor)

text \<open>Shifting out \<open>k\<close> zero bits never applies the polynomial.\<close>

lemma crc16_shift_pow_high:
  "take_bit k y = 0 \<Longrightarrow> (crc16_shift ^^ k) y = drop_bit k y"
proof (induction k arbitrary: y)
  case 0
  then show ?case by simp
next
  case (Suc k)
  have nb: "\<not> bit y n" if "n < Suc k" for n
  proof -
    have "bit (take_bit (Suc k) y) n = bit (0::u16) n"
      using Suc.prems by simp
    then show ?thesis using that by (simp add: bit_take_bit_iff)
  qed
  have tk: "take_bit k (drop_bit 1 y) = 0"
    by (rule bit_eqI) (simp add: bit_take_bit_iff bit_drop_bit_eq nb)
  have b0: "\<not> bit y 0" using nb[of 0] by simp
  have "(crc16_shift ^^ Suc k) y = (crc16_shift ^^ k) (drop_bit 1 y)"
    using b0 by (simp add: funpow_swap1 crc16_shift_def)
  also have "\<dots> = drop_bit k (drop_bit 1 y)" by (rule Suc.IH[OF tk])
  also have "\<dots> = drop_bit (Suc k) y" by simp
  finally show ?case .
qed

text \<open>The table holds, for every byte, eight shifts of that byte.\<close>

lemma crc16_table_entries:
  "map (crc16_shift ^^ 8)
     [0x00, 0x01, 0x02, 0x03, 0x04, 0x05, 0x06, 0x07, 0x08, 0x09, 0x0A, 0x0B, 0x0C, 0x0D,
      0x0E, 0x0F, 0x10, 0x11, 0x12, 0x13, 0x14, 0x15, 0x16, 0x17, 0x18, 0x19, 0x1A, 0x1B,
      0x1C, 0x1D, 0x1E, 0x1F, 0x20, 0x21, 0x22, 0x23, 0x24, 0x25, 0x26, 0x27, 0x28, 0x29,
      0x2A, 0x2B, 0x2C, 0x2D, 0x2E, 0x2F, 0x30, 0x31, 0x32, 0x33, 0x34, 0x35, 0x36, 0x37,
      0x38, 0x39, 0x3A, 0x3B, 0x3C, 0x3D, 0x3E, 0x3F, 0x40, 0x41, 0x42, 0x43, 0x44, 0x45,
      0x46, 0x47, 0x48, 0x49, 0x4A, 0x4B, 0x4C, 0x4D, 0x4E, 0x4F, 0x50, 0x51, 0x52, 0x53,
      0x54, 0x55, 0x56, 0x57, 0x58, 0x59, 0x5A, 0x5B, 0x5C, 0x5D, 0x5E, 0x5F, 0x60, 0x61,
      0x62, 0x63, 0x64, 0x65, 0x66, 0x67, 0x68, 0x69, 0x6A, 0x6B, 0x6C, 0x6D, 0x6E, 0x6F,
      0x70, 0x71, 0x72, 0x73, 0x74, 0x75, 0x76, 0x77, 0x78, 0x79, 0x7A, 0x7B, 0x7C, 0x7D,
      0x7E, 0x7F, 0x80, 0x81, 0x82, 0x83, 0x84, 0x85, 0x86, 0x87, 0x88, 0x89, 0x8A, 0x8B,
      0x8C, 0x8D, 0x8E, 0x8F, 0x90, 0x91, 0x92, 0x93, 0x94, 0x95, 0x96, 0x97, 0x98, 0x99,
      0x9A, 0x9B, 0x9C, 0x9D, 0x9E, 0x9F, 0xA0, 0xA1, 0xA2, 0xA3, 0xA4, 0xA5, 0xA6, 0xA7,
      0xA8, 0xA9, 0xAA, 0xAB, 0xAC, 0xAD, 0xAE, 0xAF, 0xB0, 0xB1, 0xB2, 0xB3, 0xB4, 0xB5,
      0xB6, 0xB7, 0xB8, 0xB9, 0xBA, 0xBB, 0xBC, 0xBD, 0xBE, 0xBF, 0xC0, 0xC1, 0xC2, 0xC3,
      0xC4, 0xC5, 0xC6, 0xC7, 0xC8, 0xC9, 0xCA, 0xCB, 0xCC, 0xCD, 0xCE, 0xCF, 0xD0, 0xD1,
      0xD2, 0xD3, 0xD4, 0xD5, 0xD6, 0xD7, 0xD8, 0xD9, 0xDA, 0xDB, 0xDC, 0xDD, 0xDE, 0xDF,
      0xE0, 0xE1, 0xE2, 0xE3, 0xE4, 0xE5, 0xE6, 0xE7, 0xE8, 0xE9, 0xEA, 0xEB, 0xEC, 0xED,
      0xEE, 0xEF, 0xF0, 0xF1, 0xF2, 0xF3, 0xF4, 0xF5, 0xF6, 0xF7, 0xF8, 0xF9, 0xFA, 0xFB,
      0xFC, 0xFD, 0xFE, 0xFF] = crc16_table"
  by (simp add: funpow_8 crc16_shift_def crc16_table_def)

lemma bytes_upto:
  "map of_nat [0..<256] =
     [0x00, 0x01, 0x02, 0x03, 0x04, 0x05, 0x06, 0x07, 0x08, 0x09, 0x0A, 0x0B, 0x0C, 0x0D,
      0x0E, 0x0F, 0x10, 0x11, 0x12, 0x13, 0x14, 0x15, 0x16, 0x17, 0x18, 0x19, 0x1A, 0x1B,
      0x1C, 0x1D, 0x1E, 0x1F, 0x20, 0x21, 0x22, 0x23, 0x24, 0x25, 0x26, 0x27, 0x28, 0x29,
      0x2A, 0x2B, 0x2C, 0x2D, 0x2E, 0x2F, 0x30, 0x31, 0x32, 0x33, 0x34, 0x35, 0x36, 0x37,
      0x38, 0x39, 0x3A, 0x3B, 0x3C, 0x3D, 0x3E, 0x3F, 0x40, 0x41, 0x42, 0x43, 0x44, 0x45,
      0x46, 0x47, 0x48, 0x49, 0x4A, 0x4B, 0x4C, 0x4D, 0x4E, 0x4F, 0x50, 0x51, 0x52, 0x53,
      0x54, 0x55, 0x56, 0x57, 0x58, 0x59, 0x5A, 0x5B, 0x5C, 0x5D, 0x5E, 0x5F, 0x60, 0x61,
      0x62, 0x63, 0x64, 0x65, 0x66, 0x67, 0x68, 0x69, 0x6A, 0x6B, 0x6C, 0x6D, 0x6E, 0x6F,
      0x70, 0x71, 0x72, 0x73, 0x74, 0x75, 0x76, 0x77, 0x78, 0x79, 0x7A, 0x7B, 0x7C, 0x7D,
      0x7E, 0x7F, 0x80, 0x81, 0x82, 0x83, 0x84, 0x85, 0x86, 0x87, 0x88, 0x89, 0x8A, 0x8B,
      0x8C, 0x8D, 0x8E, 0x8F, 0x90, 0x91, 0x92, 0x93, 0x94, 0x95, 0x96, 0x97, 0x98, 0x99,
      0x9A, 0x9B, 0x9C, 0x9D, 0x9E, 0x9F, 0xA0, 0xA1, 0xA2, 0xA3, 0xA4, 0xA5, 0xA6, 0xA7,
      0xA8, 0xA9, 0xAA, 0xAB, 0xAC, 0xAD, 0xAE, 0xAF, 0xB0, 0xB1, 0xB2, 0xB3, 0xB4, 0xB5,
      0xB6, 0xB7, 0xB8, 0xB9, 0xBA, 0xBB, 0xBC, 0xBD, 0xBE, 0xBF, 0xC0, 0xC1, 0xC2, 0xC3,
      0xC4, 0xC5, 0xC6, 0xC7, 0xC8, 0xC9, 0xCA, 0xCB, 0xCC, 0xCD, 0xCE, 0xCF, 0xD0, 0xD1,
      0xD2, 0xD3, 0xD4, 0xD5, 0xD6, 0xD7, 0xD8, 0xD9, 0xDA, 0xDB, 0xDC, 0xDD, 0xDE, 0xDF,
      0xE0, 0xE1, 0xE2, 0xE3, 0xE4, 0xE5, 0xE6, 0xE7, 0xE8, 0xE9, 0xEA, 0xEB, 0xEC, 0xED,
      0xEE, 0xEF, 0xF0, 0xF1, 0xF2, 0xF3, 0xF4, 0xF5, 0xF6, 0xF7, 0xF8, 0xF9, 0xFA, 0xFB,
      0xFC, 0xFD, 0xFE, 0xFF :: u16]"
  by (simp add: upt_rec)

lemma crc16_table_upto: "map (crc16_shift ^^ 8) (map of_nat [0..<256]) = crc16_table"
  by (simp only: bytes_upto crc16_table_entries)

lemma crc16_table_nth:
  assumes "i < 256"
  shows "crc16_table ! i = (crc16_shift ^^ 8) (of_nat i)"
proof -
  have "crc16_table ! i = map (crc16_shift ^^ 8) (map of_nat [0..<256]) ! i"
    by (simp only: crc16_table_upto)
  also have "\<dots> = (crc16_shift ^^ 8) (of_nat i)"
    using assms by (simp only: map_map nth_map length_upt diff_zero nth_upt add_0 comp_def)
  finally show ?thesis .
qed

lemma low_byte_mask: "(x::u16) AND 0xFF = take_bit 8 x"
proof -
  have "(0xFF::u16) = mask 8" by (simp add: mask_eq_exp_minus_1)
  then show ?thesis by (simp add: take_bit_eq_mask)
qed

lemma split_low_byte: "(x::u16) = push_bit 8 (drop_bit 8 x) XOR take_bit 8 x"
  by (rule bit_eqI)
     (auto simp add: bit_xor_iff bit_push_bit_iff bit_drop_bit_eq bit_take_bit_iff)

lemma drop_bit_ucast_byte: "drop_bit 8 (ucast (b::u8) :: u16) = 0"
  by (rule bit_eqI) (auto simp add: bit_drop_bit_eq bit_ucast_iff dest: bit_imp_le_length)

text \<open>One round through the table is one round of eight shifts.\<close>

lemma crc16_round_bitwise: "crc16_round c b = crc16_bitwise_round c b"
proof -
  define x where "x = c XOR ucast b"
  have lo: "unat (take_bit 8 x) < 256"
    using unsigned_take_bit_eq[of 8 x, where ?'a = nat] take_bit_nat_less_exp[of 8 "unat x"]
    by simp
  have hi0: "take_bit 8 (push_bit 8 (drop_bit 8 x)) = 0"
    by (simp add: take_bit_push_bit)
  have hi: "drop_bit 8 (push_bit 8 (drop_bit 8 x)) = drop_bit 8 c"
    unfolding x_def drop_bit_xor_u16 drop_bit_ucast_byte
    by (rule bit_eqI)
       (auto simp add: bit_drop_bit_eq bit_push_bit_iff dest: bit_imp_le_length)
  have "(crc16_shift ^^ 8) x
          = (crc16_shift ^^ 8) (push_bit 8 (drop_bit 8 x)) XOR (crc16_shift ^^ 8) (take_bit 8 x)"
    using crc16_shift_pow_xor[of 8 "push_bit 8 (drop_bit 8 x)" "take_bit 8 x"]
          split_low_byte[of x] by simp
  also have "\<dots> = drop_bit 8 c XOR crc16_table ! unat (take_bit 8 x)"
    using crc16_shift_pow_high[OF hi0] hi crc16_table_nth[OF lo] by simp
  finally show ?thesis
    by (simp add: crc16_round_def crc16_bitwise_round_def x_def Let_def low_byte_mask)
qed

lemma CRC16_reference: "CRC16 buffer len = crc16_reference 0xFFFF (take len buffer)"
proof -
  have "crc16_round = crc16_bitwise_round"
    by (intro ext) (rule crc16_round_bitwise)
  then show ?thesis by (simp add: CRC16_def crc16_reference_def)
qed

text \<open>
  The reference definitions give the published check values of the two algorithms on the
  string \<open>123456789\<close>: \<open>0xBB3D\<close> for CRC-16/ARC and \<open>0x4B37\<close> for CRC-16/MODBUS.
\<close>

lemma reference_check_values:
  "CRC16_ARC_reference [0x31, 0x32, 0x33, 0x34, 0x35, 0x36, 0x37, 0x38, 0x39] = 0xBB3D"
  "CRC16_MODBUS_reference [0x31, 0x32, 0x33, 0x34, 0x35, 0x36, 0x37, 0x38, 0x39] = 0x4B37"
  by (simp_all add: CRC16_ARC_reference_def CRC16_MODBUS_reference_def crc16_reference_def
        crc16_bitwise_round_def funpow_8 crc16_shift_def)

lemma CRC16_A: "CRC16 [0x41] 1 = 0x707F"
  by (simp add: CRC16_def crc16_round_def crc16_table_def)

lemma CRC16_ARC_A: "CRC16_ARC_reference [0x41] = 0x30C0"
  by (simp add: CRC16_ARC_reference_def crc16_reference_def crc16_bitwise_round_def
        funpow_8 crc16_shift_def)

text \<open>
  C7, as stated, fails: the claim has \<open>CRC16\<close> match the reference CRC-16/ARC bit for bit,
  with \<open>CRC16 ("A", 1)\<close> equal to the CRC-16/ARC of \<open>A\<close>. CRC-16/ARC starts from zero
  and gives \<open>0x30C0\<close> for the one byte \<open>A\<close>; the source starts from \<open>65535\<close> and
  returns \<open>0x707F\<close>.
\<close>

theorem C7_CRC16_is_not_CRC16_ARC:
  "CRC16 [0x41] 1 = 0x707F \<and> CRC16_ARC_reference [0x41] = 0x30C0
   \<and> CRC16 [0x41] 1 \<noteq> CRC16_ARC_reference [0x41]"
  using CRC16_A CRC16_ARC_A by simp

text \<open>
  C7, amended: \<open>CRC16\<close> is a function of the buffer and the length alone; on the first
  \<open>len\<close> bytes it is, bit for bit, the reflected CRC-16 with the polynomial of
  CRC-16/ARC, the initial value all ones and no final XOR, which are the parameters of
  CRC-16/MODBUS. On an empty buffer it returns \<open>0xFFFF\<close>, and \<open>CRC16 ("A", 1)\<close> is
  \<open>0x707F\<close>.
\<close>

theorem C7_CRC16_is_CRC16_MODBUS:
  "CRC16 buffer len = CRC16_MODBUS_reference (take len buffer)
   \<and> CRC16 buffer 0 = 0xFFFF
   \<and> CRC16 [0x41] 1 = 0x707F"
proof -
  have "CRC16 buffer len = CRC16_MODBUS_reference (take len buffer)"
    by (simp add: CRC16_reference CRC16_MODBUS_reference_def)
  moreover have "CRC16 buffer 0 = 0xFFFF"
    by (simp add: CRC16_def)
  ultimately show ?thesis
    using CRC16_A by simp
qed


section \<open>Driver calls, messages and reset\<close>

lemma invoke_fields [simp]:
  "calls (snd (invoke ev f s)) = calls s @ [ev]"
  "messages (snd (invoke ev f s)) = messages s"
  "formatBuffer (snd (invoke ev f s)) = formatBuffer s"
  "state (snd (invoke ev f s)) = state s"
  "hw (snd (invoke ev f s)) = snd (f (hw s))"
  "fst (invoke ev f s) = fst (f (hw s))"
  by (simp_all add: invoke_def split: prod.splits)

lemma Reset_exit [simp]: "fst (Reset c H success s) = Restarted success"
  by (simp add: Reset_def Let_def)

lemma Reset_calls:
  "calls (snd (Reset c H success s)) =
     calls s @
     (if \<not> success \<and> state_index WritingUpgrade \<le> state_index (state s) then
        (if chip c = SAME5x then
           [Call_Flash_Unlock (FirmwareFlashStart c) (pageSize c),
            Call_Flash_Write (FirmwareFlashStart c) (bytes_of_string (formatBuffer s))]
         else
           [Call_flash_unlock (FirmwareFlashStart c) (FirmwareFlashStart c + pageSize c),
            Call_flash_write (FirmwareFlashStart c) (bytes_of_string (formatBuffer s)) 1,
            Call_flash_clear_gpnvm 1])
      else []) @ [Call_reboot]"
  by (simp add: Reset_def Let_def)

lemma Reset_keeps:
  "messages (snd (Reset c H success s)) = messages s"
  "formatBuffer (snd (Reset c H success s)) = formatBuffer s"
  "state (snd (Reset c H success s)) = state s"
  by (simp_all add: Reset_def Let_def)

lemma MessageF_fields:
  "formatBuffer (MessageF msg s) = take 99 msg"
  "messages (MessageF msg s) = messages s @ [take 99 msg]"
  "state (MessageF msg s) = state s"
  "calls (MessageF msg s) = calls s"
  "hw (MessageF msg s) = hw s"
  by (simp_all add: MessageF_def)


section \<open>How a call of the main loop can end\<close>

lemma known_exit_Inr [simp]: "known_exit c H (Inr y)"
  by (simp add: known_exit_def)

lemma known_exit_Reset [simp]: "known_exit c H (Inl (Reset c H b (MessageF msg s1)))"
  unfolding known_exit_def by blast

lemma known_exit_NoReturn [simp]: "known_exit c H (Inl (NoReturn, s))"
  by (simp add: known_exit_def)

lemma known_exit_DivisionByZero [simp]: "known_exit c H (Inl (DivisionByZero, s))"
  by (simp add: known_exit_def)

lemma known_exit_Inl_cong: "known_exit c H (Inl x :: (exit \<times> 'hw iap) + 'a) \<Longrightarrow> known_exit c H (Inl x :: (exit \<times> 'hw iap) + 'b)"
  by (simp add: known_exit_def)

lemma ReadBlock_spi_exit: "known_exit c H (ReadBlock_spi c H s)"
  by (simp add: ReadBlock_spi_def Let_def split: prod.splits bool.splits)

lemma ReadBlockUf2_loop_exit:
  assumes "ReadBlockUf2_loop c H seekPos s = Some r"
  shows "known_exit c H r"
proof (rule ReadBlockUf2_loop.raw_induct[OF _ assms])
  fix f :: "config \<Rightarrow> 'a hardware \<Rightarrow> u32 \<Rightarrow> 'a iap \<Rightarrow> 'a read_result option"
    and c H seekPos s r
  assume IH: "\<And>c H seekPos s r. f c H seekPos s = Some r \<Longrightarrow> known_exit c H r"
    and body: "(if seekPos + bytesRead s * 2 = firmwareFileSize s then
        Some (Inr (True, s\<lparr>readData := memset (readData s) (unat (bytesRead s)) 0xFF
                                          (unat (blockReadSize c - bytesRead s))\<rparr>))
      else
        (case invoke (Call_f_read sizeof_UF2_Block) (f_read H sizeof_UF2_Block) s of
           ((ok, bs), s1) \<Rightarrow>
             if \<not> ok then Some (Inr (False, s1\<lparr>retry := retry s1 + 1\<rparr>))
             else if length bs \<noteq> sizeof_UF2_Block then
               Some (Inr (False, s1\<lparr>retry := retry s1 + 1\<rparr>))
             else if magicStart0 (UF2_Block_of_bytes bs) \<noteq> MagicStart0Val
                   \<or> magicStart1 (UF2_Block_of_bytes bs) \<noteq> MagicStart1Val
                   \<or> magicEnd (UF2_Block_of_bytes bs) \<noteq> MagicEndVal then
               Some (Inl (Reset c H False
                            (MessageF (''ERROR: bad UF2 block at offset ''
                                         @ dec (unat (seekPos + bytesRead s1))) s1)))
             else if targetAddr (UF2_Block_of_bytes bs) \<noteq> flashPos s1 + bytesRead s1
                   \<or> payloadSize (UF2_Block_of_bytes bs) \<noteq> 256 then
               Some (Inl (Reset c H False
                            (MessageF (''ERROR: unexpected data in UF2 block at offset ''
                                         @ dec (unat (seekPos + bytesRead s1))) s1)))
             else if bytesRead s1 + 256 < blockReadSize c then
               f c H seekPos
                 (s1\<lparr>readData := memcpy (readData s1) (unat (bytesRead s1))
                                     (take 256 (data (UF2_Block_of_bytes bs))),
                     bytesRead := bytesRead s1 + 256\<rparr>)
             else
               Some (Inr (True,
                 s1\<lparr>readData := memcpy (readData s1) (unat (bytesRead s1))
                                     (take 256 (data (UF2_Block_of_bytes bs))),
                     bytesRead := bytesRead s1 + 256\<rparr>)))) = Some r"
  show "known_exit c H r"
    using body IH
    by (auto split: if_splits prod.splits)
qed



lemma ReadBlockUf2_exit: "known_exit c H (ReadBlockUf2 c H s)"
  by (auto simp add: ReadBlockUf2_def Let_def dest: ReadBlockUf2_loop_exit
           split: prod.splits bool.splits option.splits)

lemma ReadBlock_file_exit: "known_exit c H (ReadBlock_file c H s)"
  by (simp add: ReadBlock_file_def Let_def ReadBlockUf2_exit split: prod.splits bool.splits)

lemma ReadBlock_exit: "known_exit c H (ReadBlock c H s)"
  by (simp add: ReadBlock_def ReadBlock_file_exit ReadBlock_spi_exit)

lemma fetch_block_exit: "known_exit c H (fetch_block c H s)"
proof (cases "ReadBlock c H s")
  case (Inl x)
  then have "known_exit c H (Inl x :: 'a read_result)"
    using ReadBlock_exit[of c H s] by simp
  then show ?thesis using Inl by (simp add: fetch_block_def)
next
  case (Inr y)
  then show ?thesis by (cases y) (simp add: fetch_block_def split: bool.splits)
qed

lemma ShowProgress_exit: "known_exit c H (ShowProgress c s)"
  by (simp add: ShowProgress_def)

lemma write_page_exit: "known_exit c H (write_page c H s)"
proof -
  have "known_exit c H (case ShowProgress c s2 of Inl e \<Rightarrow> Inl e | Inr s3 \<Rightarrow> Inr (block_done c H s3))" for s2
    by (simp add: ShowProgress_def)
  then show ?thesis
    by (simp add: write_page_def Let_def split: prod.splits bool.splits)
qed

lemma case_WritingUpgrade_exit: "known_exit c H (case_WritingUpgrade c H s)"
proof (cases "fetch_block c H s")
  case (Inl x)
  then have "known_exit c H (Inl x :: 'a read_result)"
    using fetch_block_exit[of c H s] by simp
  then have "known_exit c H (Inl x :: 'a outcome)"
    by (rule known_exit_Inl_cong)
  then show ?thesis using Inl by (simp add: case_WritingUpgrade_def)
next
  case (Inr y)
  then show ?thesis
    by (cases y) (simp add: case_WritingUpgrade_def write_page_exit split: bool.splits)
qed

lemma case_UnlockingFlash_exit: "known_exit c H (case_UnlockingFlash c H s)"
  by (simp add: case_UnlockingFlash_def Let_def split: prod.splits bool.splits)

lemma erase_recheck_known: "known_exit c H (erase_recheck c H s)"
  by (simp add: erase_recheck_def split: option.splits bool.splits)

lemma case_ErasingFlash_known: "known_exit c H (case_ErasingFlash c H s)"
  by (simp add: case_ErasingFlash_def Let_def erase_recheck_known
           split: option.splits bool.splits prod.splits)

lemma case_VerifyingChecksum_exit: "known_exit c H (case_VerifyingChecksum c H s)"
  by (simp add: case_VerifyingChecksum_def Let_def split: prod.splits bool.splits)

lemma case_SendingChecksumOK_exit: "known_exit c H (case_SendingChecksumOK c H s)"
  by (simp add: case_SendingChecksumOK_def Let_def split: prod.splits bool.splits)

lemma case_SendingChecksumError_exit: "known_exit c H (case_SendingChecksumError c H s)"
  by (simp add: case_SendingChecksumError_def Let_def split: prod.splits bool.splits)

lemma case_LockingFlash_exit: "known_exit c H (case_LockingFlash c H s)"
  by (simp add: case_LockingFlash_def Let_def split: prod.splits bool.splits)

lemma writeBinary_exit: "known_exit c H (writeBinary c H s)"
  by (simp add: writeBinary_def case_UnlockingFlash_exit case_ErasingFlash_known
        case_WritingUpgrade_exit case_VerifyingChecksum_exit case_SendingChecksumOK_exit
        case_SendingChecksumError_exit case_LockingFlash_exit
      split: ProcessState.splits)



section \<open>C9: what a fatal failure leaves behind\<close>

text \<open>
  C9, as stated, fails: the claim has the last message persisted for a fatal failure in
  whatever state it occurs. When the retries are used up in \<open>UnlockingFlash\<close>, the run
  ends in \<open>Reset (false)\<close> with the message in \<open>formatBuffer\<close>, and the only driver
  call is the reboot: nothing is written to the flash.
\<close>

theorem C9_counterexample:
  "exit_of (writeBinary cfg_file sim_hardware st_unlock_exhausted) = Some (Restarted False)
   \<and> formatBuffer (final (writeBinary cfg_file sim_hardware st_unlock_exhausted))
       = ''ERROR: Operation 1 failed after 5 retries''
   \<and> calls (final (writeBinary cfg_file sim_hardware st_unlock_exhausted)) = [Call_reboot]"
  by (simp add: writeBinary_def st_unlock_exhausted_def start_state_def cfg_file_def
        exit_of_def final_def Reset_def MessageF_def invoke_def sim_hardware_def
        dec.simps digit_def Let_def)

text \<open>
  C9, amended: \<open>Reset (success)\<close> always ends in a reboot. After a failure in a state
  from \<open>WritingUpgrade\<close> on, and only then, it first unlocks the first page of the
  region and writes the text of \<open>formatBuffer\<close> to the start of the region (and, except
  on the SAME5x, clears GPNVM bit 1 so that the boot loader starts next); after a failure
  in an earlier state, or after a success, it issues no driver call but the reboot.
  Whenever a call of the main loop ends in \<open>Reset\<close>, \<open>formatBuffer\<close> holds the
  last message sent, so that message is the text written.
\<close>

theorem C9_amended:
  "fst (Reset c H success s) = Restarted success
   \<and> calls (snd (Reset c H success s)) =
        calls s @
        (if \<not> success \<and> state_index WritingUpgrade \<le> state_index (state s) then
           (if chip c = SAME5x then
              [Call_Flash_Unlock (FirmwareFlashStart c) (pageSize c),
               Call_Flash_Write (FirmwareFlashStart c) (bytes_of_string (formatBuffer s))]
            else
              [Call_flash_unlock (FirmwareFlashStart c) (FirmwareFlashStart c + pageSize c),
               Call_flash_write (FirmwareFlashStart c) (bytes_of_string (formatBuffer s)) 1,
               Call_flash_clear_gpnvm 1])
         else []) @ [Call_reboot]
   \<and> (writeBinary c H s = Inl (Restarted success, s') \<longrightarrow>
        messages s' \<noteq> [] \<and> formatBuffer s' = last (messages s')
        \<and> (\<exists>before.
              calls s' =
                before @
                (if \<not> success \<and> state_index WritingUpgrade \<le> state_index (state s') then
                   (if chip c = SAME5x then
                      [Call_Flash_Unlock (FirmwareFlashStart c) (pageSize c),
                       Call_Flash_Write (FirmwareFlashStart c)
                         (bytes_of_string (formatBuffer s'))]
                    else
                      [Call_flash_unlock (FirmwareFlashStart c)
                         (FirmwareFlashStart c + pageSize c),
                       Call_flash_write (FirmwareFlashStart c)
                         (bytes_of_string (formatBuffer s')) 1,
                       Call_flash_clear_gpnvm 1])
                 else []) @ [Call_reboot]))"
proof (intro conjI impI)
  show "fst (Reset c H success s) = Restarted success" by simp
next
  show "calls (snd (Reset c H success s)) =
        calls s @
        (if \<not> success \<and> state_index WritingUpgrade \<le> state_index (state s) then
           (if chip c = SAME5x then
              [Call_Flash_Unlock (FirmwareFlashStart c) (pageSize c),
               Call_Flash_Write (FirmwareFlashStart c) (bytes_of_string (formatBuffer s))]
            else
              [Call_flash_unlock (FirmwareFlashStart c) (FirmwareFlashStart c + pageSize c),
               Call_flash_write (FirmwareFlashStart c) (bytes_of_string (formatBuffer s)) 1,
               Call_flash_clear_gpnvm 1])
         else []) @ [Call_reboot]"
    by (rule Reset_calls)
next
  assume wb: "writeBinary c H s = Inl (Restarted success, s')"
  from writeBinary_exit[of c H s] wb
  obtain b msg s1 where x: "(Restarted success, s') = Reset c H b (MessageF msg s1)"
    by (auto simp add: known_exit_def)
  from x have b: "b = success"
    using Reset_exit[of c H b "MessageF msg s1"] by (metis exit.inject fst_conv)
  from x have s': "s' = snd (Reset c H success (MessageF msg s1))"
    unfolding b by (metis snd_conv)
  show "messages s' \<noteq> []"
    unfolding s' by (simp add: Reset_keeps MessageF_fields)
  show "formatBuffer s' = last (messages s')"
    unfolding s' by (simp add: Reset_keeps MessageF_fields)
  show "\<exists>before.
              calls s' =
                before @
                (if \<not> success \<and> state_index WritingUpgrade \<le> state_index (state s') then
                   (if chip c = SAME5x then
                      [Call_Flash_Unlock (FirmwareFlashStart c) (pageSize c),
                       Call_Flash_Write (FirmwareFlashStart c)
                         (bytes_of_string (formatBuffer s'))]
                    else
                      [Call_flash_unlock (FirmwareFlashStart c)
                         (FirmwareFlashStart c + pageSize c),
                       Call_flash_write (FirmwareFlashStart c)
                         (bytes_of_string (formatBuffer s')) 1,
                       Call_flash_clear_gpnvm 1])
                 else []) @ [Call_reboot]"
    unfolding s' Reset_keeps by (rule exI[of _ "calls (MessageF msg s1)"]) (rule Reset_calls)
qed

lemma st_write_exhausted_run:
  "writeBinary cfg_file sim_hardware st_write_exhausted =
     Inl (Reset cfg_file sim_hardware False
            (MessageF ''ERROR: Operation 3 failed after 5 retries'' st_write_exhausted))"
  by (simp add: writeBinary_def st_write_exhausted_def start_state_def cfg_file_def
        dec.simps digit_def)

theorem C9_witness:
  "formatBuffer (final (writeBinary cfg_file sim_hardware st_write_exhausted))
     = ''ERROR: Operation 3 failed after 5 retries''
   \<and> calls (final (writeBinary cfg_file sim_hardware st_write_exhausted)) =
       [Call_flash_unlock 0x400000 0x400008,
        Call_flash_write 0x400000
          (bytes_of_string ''ERROR: Operation 3 failed after 5 retries'') 1,
        Call_flash_clear_gpnvm 1, Call_reboot]
   \<and> (\<exists>before.
         calls (final (writeBinary cfg_file sim_hardware st_write_exhausted)) =
           before @
           [Call_flash_unlock 0x400000 0x400008,
            Call_flash_write 0x400000
              (bytes_of_string
                 (last (messages (final (writeBinary cfg_file sim_hardware st_write_exhausted)))))
              1,
            Call_flash_clear_gpnvm 1, Call_reboot])"
proof -
  let ?s' = "final (writeBinary cfg_file sim_hardware st_write_exhausted)"
  have fin: "?s' = snd (Reset cfg_file sim_hardware False
            (MessageF ''ERROR: Operation 3 failed after 5 retries'' st_write_exhausted))"
    unfolding st_write_exhausted_run by (simp add: final_def split: prod.splits)
  have run: "writeBinary cfg_file sim_hardware st_write_exhausted = Inl (Restarted False, ?s')"
    unfolding fin unfolding st_write_exhausted_run
    by (metis Reset_exit prod.collapse)
  have st: "state ?s' = WritingUpgrade"
    unfolding fin by (simp add: Reset_keeps MessageF_fields st_write_exhausted_def)
  have fb: "formatBuffer ?s' = ''ERROR: Operation 3 failed after 5 retries''"
    unfolding fin by (simp add: Reset_keeps MessageF_fields)
  have cs: "calls ?s' = [Call_flash_unlock 0x400000 0x400008,
        Call_flash_write 0x400000
          (bytes_of_string ''ERROR: Operation 3 failed after 5 retries'') 1,
        Call_flash_clear_gpnvm 1, Call_reboot]"
    unfolding fin Reset_calls
    by (simp add: MessageF_fields st_write_exhausted_def start_state_def cfg_file_def)
  from C9_amended[of cfg_file sim_hardware False st_write_exhausted ?s']
       run
  have "formatBuffer ?s' = last (messages ?s')"
    and "\<exists>before. calls ?s' = before @
           (if \<not> False \<and> state_index WritingUpgrade \<le> state_index (state ?s') then
                   (if chip cfg_file = SAME5x then
                      [Call_Flash_Unlock (FirmwareFlashStart cfg_file) (pageSize cfg_file),
                       Call_Flash_Write (FirmwareFlashStart cfg_file)
                         (bytes_of_string (formatBuffer ?s'))]
                    else
                      [Call_flash_unlock (FirmwareFlashStart cfg_file)
                         (FirmwareFlashStart cfg_file + pageSize cfg_file),
                       Call_flash_write (FirmwareFlashStart cfg_file)
                         (bytes_of_string (formatBuffer ?s')) 1,
                       Call_flash_clear_gpnvm 1])
                 else []) @ [Call_reboot]"
    by blast+
  then show ?thesis
    using fb cs st by (simp add: cfg_file_def)
qed


section \<open>Frame lemmas\<close>

lemma invoke_eq:
  "f (hw s) = (r, h) \<Longrightarrow> invoke ev f s = (r, s\<lparr>hw := h, calls := calls s @ [ev]\<rparr>)"
  by (simp add: invoke_def)

lemma query_eq: "f (hw s) = (r, h) \<Longrightarrow> query f s = (r, s\<lparr>hw := h\<rparr>)"
  by (simp add: query_def)

lemma query_fields [simp]:
  "fst (query f s) = fst (f (hw s))"
  "hw (snd (query f s)) = snd (f (hw s))"
  "calls (snd (query f s)) = calls s"
  "messages (snd (query f s)) = messages s"
  "state (snd (query f s)) = state s"
  "flashPos (snd (query f s)) = flashPos s"
  "retry (snd (query f s)) = retry s"
  "bytesWritten (snd (query f s)) = bytesWritten s"
  by (simp_all add: query_def split: prod.splits)

lemma invoke_frame [simp]:
  "flashPos (snd (invoke ev f s)) = flashPos s"
  "retry (snd (invoke ev f s)) = retry s"
  "bytesWritten (snd (invoke ev f s)) = bytesWritten s"
  "bytesRead (snd (invoke ev f s)) = bytesRead s"
  "haveDataInBuffer (snd (invoke ev f s)) = haveDataInBuffer s"
  "readData (snd (invoke ev f s)) = readData s"
  by (simp_all add: invoke_def split: prod.splits)

lemma setup_spi_frame:
  "flashPos (setup_spi H n s) = flashPos s"
  "retry (setup_spi H n s) = retry s"
  "bytesWritten (setup_spi H n s) = bytesWritten s"
  "state (setup_spi H n s) = state s"
  "haveDataInBuffer (setup_spi H n s) = haveDataInBuffer s"
  "readData (setup_spi H n s) = readData s"
  "writeData (setup_spi H n s) = writeData s"
  "messages (setup_spi H n s) = messages s"
  "calls (setup_spi H n s) = calls s @ [Call_setup_spi n (take n (writeData s))]"
  "transferPending (setup_spi H n s)"
  by (simp_all add: setup_spi_def Let_def query_def invoke_def split: prod.splits)

lemma closeBinary_frame:
  "flashPos (closeBinary H s) = flashPos s"
  "retry (closeBinary H s) = retry s"
  "bytesWritten (closeBinary H s) = bytesWritten s"
  "calls (closeBinary H s) = calls s @ [Call_f_close]"
  by (simp_all add: closeBinary_def)

lemma block_done_frame:
  "flashPos (block_done c H s) = flashPos s"
  "retry (block_done c H s) = retry s"
  "bytesWritten (block_done c H s) = bytesWritten s"
  "\<exists>more. calls (block_done c H s) = calls s @ more"
  by (simp_all add: block_done_def setup_spi_frame closeBinary_frame)

lemma block_done_unfinished:
  "bytesWritten s \<noteq> blockReadSize c \<Longrightarrow> block_done c H s = s"
  by (simp add: block_done_def)

lemma ShowProgress_frame:
  assumes "ShowProgress c s = Inr s'"
  shows "flashPos s' = flashPos s" "retry s' = retry s" "bytesWritten s' = bytesWritten s"
    "calls s' = calls s" "hw s' = hw s" "state s' = state s"
    "haveDataInBuffer s' = haveDataInBuffer s" "readData s' = readData s"
    "bytesRead s' = bytesRead s"
    "firmwareFileSize s' = firmwareFileSize s" "isUf2File s' = isUf2File s"
  using assms by (auto simp add: ShowProgress_def MessageF_def split: if_splits)

lemma ShowProgress_returns:
  "totalSize c s \<noteq> 0 \<Longrightarrow> \<exists>s'. ShowProgress c s = Inr s'"
  by (simp add: ShowProgress_def)

lemma totalSize_cong:
  "firmwareFileSize s' = firmwareFileSize s \<Longrightarrow> isUf2File s' = isUf2File s
   \<Longrightarrow> totalSize c s' = totalSize c s"
  by (simp add: totalSize_def)

lemma MessageF_frame [simp]:
  "flashPos (MessageF msg s) = flashPos s"
  "retry (MessageF msg s) = retry s"
  "bytesRead (MessageF msg s) = bytesRead s"
  "bytesWritten (MessageF msg s) = bytesWritten s"
  "haveDataInBuffer (MessageF msg s) = haveDataInBuffer s"
  "reportNextPercent (MessageF msg s) = reportNextPercent s"
  "readData (MessageF msg s) = readData s"
  "writeData (MessageF msg s) = writeData s"
  "transferPending (MessageF msg s) = transferPending s"
  "transferStartTime (MessageF msg s) = transferStartTime s"
  "fwFile (MessageF msg s) = fwFile s"
  "firmwareFileSize (MessageF msg s) = firmwareFileSize s"
  "isUf2File (MessageF msg s) = isUf2File s"
  by (simp_all add: MessageF_def)

section \<open>C1: a page is written, then compared\<close>

text \<open>The state in which the page is written: the retry message changes no field that
  the write reads.\<close>

lemma page_data_MessageF [simp]: "page_data c (MessageF msg s) = page_data c s"
  by (simp add: page_data_def MessageF_def)

lemma write_page_failure:
  assumes wr: "write_primitive c H (flashPos s) (page_data c s) (hw s) = (ok, h')"
    and bad: "\<not> ok \<or> mem_bytes (hw_mem H h') (flashPos s) (unat (pageSize c)) \<noteq> page_data c s"
  shows "\<exists>s'. write_page c H s = Inr s' \<and> flashPos s' = flashPos s
           \<and> bytesWritten s' = bytesWritten s \<and> retry s' = retry s + 1
           \<and> state s' = state s \<and> haveDataInBuffer s' = haveDataInBuffer s
           \<and> readData s' = readData s \<and> hw s' = h'
           \<and> calls s' = calls s @ [write_call c (flashPos s) (page_data c s)]"
proof -
  define s0 where "s0 = (if retry s \<noteq> 0
      then MessageF (''Flash write retry #'' @ dec (unat (retry s))) s else s)"
  have f: "flashPos s0 = flashPos s" "page_data c s0 = page_data c s" "hw s0 = hw s"
    "retry s0 = retry s" "bytesWritten s0 = bytesWritten s" "state s0 = state s"
    "haveDataInBuffer s0 = haveDataInBuffer s" "readData s0 = readData s"
    "calls s0 = calls s"
    by (simp_all add: s0_def MessageF_fields)
  have inv: "invoke (write_call c (flashPos s0) (page_data c s0))
               (write_primitive c H (flashPos s0) (page_data c s0)) s0
             = (ok, s0\<lparr>hw := h', calls := calls s0 @ [write_call c (flashPos s) (page_data c s)]\<rparr>)"
    using wr by (simp add: invoke_def f)
  have pd: "page_data c (s0\<lparr>hw := h', calls := cs\<rparr>) = page_data c s" for cs
    using f(2) by (simp add: page_data_def)
  show ?thesis
    using bad inv
    unfolding write_page_def s0_def[symmetric] Let_def
    by (cases ok) (auto simp add: f pd)
qed

lemma write_page_success:
  assumes wr: "write_primitive c H (flashPos s) (page_data c s) (hw s) = (True, h')"
    and same: "mem_bytes (hw_mem H h') (flashPos s) (unat (pageSize c)) = page_data c s"
    and total: "totalSize c s \<noteq> 0"
  shows "\<exists>s'. write_page c H s = Inr s' \<and> flashPos s' = flashPos s + pageSize c
           \<and> bytesWritten s' = bytesWritten s + pageSize c \<and> retry s' = 0
           \<and> (\<exists>more. calls s' = calls s @ write_call c (flashPos s) (page_data c s) # more)"
proof -
  define s0 where "s0 = (if retry s \<noteq> 0
      then MessageF (''Flash write retry #'' @ dec (unat (retry s))) s else s)"
  have f: "flashPos s0 = flashPos s" "page_data c s0 = page_data c s" "hw s0 = hw s"
    "bytesWritten s0 = bytesWritten s" "calls s0 = calls s"
    "firmwareFileSize s0 = firmwareFileSize s" "isUf2File s0 = isUf2File s"
    by (simp_all add: s0_def MessageF_fields)
  define s1 where "s1 = s0\<lparr>hw := h', calls := calls s0 @ [write_call c (flashPos s) (page_data c s)]\<rparr>"
  define s2 where "s2 = s1\<lparr>retry := 0, bytesWritten := bytesWritten s1 + pageSize c,
                           flashPos := flashPos s1 + pageSize c\<rparr>"
  have inv: "invoke (write_call c (flashPos s0) (page_data c s0))
               (write_primitive c H (flashPos s0) (page_data c s0)) s0 = (True, s1)"
    using wr by (simp add: invoke_def f s1_def)
  have pd: "page_data c s1 = page_data c s"
    using f(2) by (simp add: page_data_def s1_def)
  have "totalSize c s2 = totalSize c s"
    by (rule totalSize_cong) (simp_all add: s2_def s1_def f)
  with total obtain s3 where sp: "ShowProgress c s2 = Inr s3"
    using ShowProgress_returns[of c s2] by auto
  have wp: "write_page c H s = Inr (block_done c H s3)"
    unfolding write_page_def s0_def[symmetric] Let_def
    using inv same sp by (simp add: pd s1_def[symmetric] s2_def[symmetric]) (simp add: s1_def f)
  have s3: "flashPos s3 = flashPos s + pageSize c" "bytesWritten s3 = bytesWritten s + pageSize c"
    "retry s3 = 0" "calls s3 = calls s @ [write_call c (flashPos s) (page_data c s)]"
    using ShowProgress_frame[OF sp] by (simp_all add: s2_def s1_def f)
  obtain more where "calls (block_done c H s3) = calls s3 @ more"
    using block_done_frame(4) by blast
  then show ?thesis
    using wp s3 by (simp add: block_done_frame)
qed

lemma write_page_division_by_zero:
  assumes wr: "write_primitive c H (flashPos s) (page_data c s) (hw s) = (True, h')"
    and same: "mem_bytes (hw_mem H h') (flashPos s) (unat (pageSize c)) = page_data c s"
    and total: "totalSize c s = 0"
  shows "exit_of (write_page c H s) = Some DivisionByZero"
proof -
  define s0 where "s0 = (if retry s \<noteq> 0
      then MessageF (''Flash write retry #'' @ dec (unat (retry s))) s else s)"
  have f: "flashPos s0 = flashPos s" "page_data c s0 = page_data c s" "hw s0 = hw s"
    "firmwareFileSize s0 = firmwareFileSize s" "isUf2File s0 = isUf2File s"
    by (simp_all add: s0_def MessageF_fields)
  define s1 where "s1 = s0\<lparr>hw := h', calls := calls s0 @ [write_call c (flashPos s) (page_data c s)]\<rparr>"
  define s2 where "s2 = s1\<lparr>retry := 0, bytesWritten := bytesWritten s1 + pageSize c,
                           flashPos := flashPos s1 + pageSize c\<rparr>"
  have inv: "invoke (write_call c (flashPos s0) (page_data c s0))
               (write_primitive c H (flashPos s0) (page_data c s0)) s0 = (True, s1)"
    using wr by (simp add: invoke_def f s1_def)
  have pd: "page_data c s1 = page_data c s"
    using f(2) by (simp add: page_data_def s1_def)
  have "totalSize c s2 = totalSize c s"
    by (rule totalSize_cong) (simp_all add: s2_def s1_def f)
  with total have sp: "ShowProgress c s2 = Inl (DivisionByZero, s2)"
    by (simp add: ShowProgress_def)
  have "write_page c H s = Inl (DivisionByZero, s2)"
    unfolding write_page_def s0_def[symmetric] Let_def
    using inv same sp by (simp add: pd s1_def[symmetric] s2_def[symmetric]) (simp add: s1_def f)
  then show ?thesis by (simp add: exit_of_def)
qed

lemma writeBinary_WritingUpgrade:
  assumes "state s0 = WritingUpgrade" "retry s0 \<le> maxRetries c"
    and "fetch_block c H s0 = Inr (True, s)"
  shows "writeBinary c H s0 = write_page c H s"
  using assms by (simp add: writeBinary_def case_WritingUpgrade_def not_less[symmetric])

lemma fetch_block_buffered: "haveDataInBuffer s0 \<Longrightarrow> fetch_block c H s0 = Inr (True, s0)"
  by (simp add: fetch_block_def)

lemma fetch_block_read:
  "\<not> haveDataInBuffer s0 \<Longrightarrow> ReadBlock c H s0 = Inr (True, s1) \<Longrightarrow>
   fetch_block c H s0 = Inr (True, s1\<lparr>haveDataInBuffer := True, retry := 0, bytesWritten := 0\<rparr>)"
  by (simp add: fetch_block_def)


lemma unat_offset: "i < 2 ^ 32 \<Longrightarrow> unat ((a :: u32) + of_nat i - a) = i"
  by (simp add: unat_of_nat)

lemma mem_bytes_store:
  assumes "length bs = n" "n \<le> 2 ^ 32"
  shows "mem_bytes (store m a bs) a n = bs"
proof (rule nth_equalityI)
  show "length (mem_bytes (store m a bs) a n) = length bs"
    using assms by (simp add: mem_bytes_def)
next
  fix i assume "i < length (mem_bytes (store m a bs) a n)"
  then have i: "i < length bs" using assms by (simp add: mem_bytes_def)
  with assms have "i < 2 ^ 32" by simp
  then have "unat (a + of_nat i - a) = i" by (rule unat_offset)
  then show "mem_bytes (store m a bs) a n ! i = bs ! i"
    using i assms by (simp add: mem_bytes_def store_def)
qed

lemma mem_bytes_const: "mem_bytes (\<lambda>a. v) a n = replicate n v"
  by (simp add: mem_bytes_def map_replicate_const)

text \<open>
  C1: in \<open>WritingUpgrade\<close>, with \<open>s\<close> the globals when the page is written (a block
  is buffered, or has just been read, which clears \<open>retry\<close> and \<open>bytesWritten\<close>), the
  page at \<open>bytesWritten\<close> is handed to the write primitive, and the flash as it is right
  after that call is compared byte for byte with the page. When the write succeeds and
  the bytes are equal, the cursor and \<open>bytesWritten\<close> advance by one page and \<open>retry\<close>
  is cleared (the progress report needs a nonzero divisor, see C10). When the write fails
  or the bytes differ, the two cases are not told apart: the cursor, \<open>bytesWritten\<close>,
  the buffer and the state are unchanged, \<open>retry\<close> is incremented and the write was the
  only driver call.
\<close>

theorem C1_page_write_then_verify:
  assumes wr: "write_primitive c H (flashPos s) (page_data c s) (hw s) = (ok, h')"
  shows
    "(ok \<and> mem_bytes (hw_mem H h') (flashPos s) (unat (pageSize c)) = page_data c s
        \<and> totalSize c s \<noteq> 0 \<longrightarrow>
        (\<exists>s'. write_page c H s = Inr s' \<and> flashPos s' = flashPos s + pageSize c
           \<and> bytesWritten s' = bytesWritten s + pageSize c \<and> retry s' = 0
           \<and> (\<exists>more. calls s' = calls s @ write_call c (flashPos s) (page_data c s) # more)))
     \<and> (\<not> ok \<or> mem_bytes (hw_mem H h') (flashPos s) (unat (pageSize c)) \<noteq> page_data c s \<longrightarrow>
        (\<exists>s'. write_page c H s = Inr s' \<and> flashPos s' = flashPos s
           \<and> bytesWritten s' = bytesWritten s \<and> retry s' = retry s + 1
           \<and> state s' = state s \<and> haveDataInBuffer s' = haveDataInBuffer s
           \<and> readData s' = readData s \<and> hw s' = h'
           \<and> calls s' = calls s @ [write_call c (flashPos s) (page_data c s)]))
     \<and> (state s0 = WritingUpgrade \<and> retry s0 \<le> maxRetries c
          \<and> fetch_block c H s0 = Inr (True, s) \<longrightarrow>
          writeBinary c H s0 = write_page c H s)
     \<and> (haveDataInBuffer s0 \<longrightarrow> fetch_block c H s0 = Inr (True, s0))
     \<and> (\<not> haveDataInBuffer s0 \<and> ReadBlock c H s0 = Inr (True, s1) \<longrightarrow>
          fetch_block c H s0 =
            Inr (True, s1\<lparr>haveDataInBuffer := True, retry := 0, bytesWritten := 0\<rparr>))"
proof (intro conjI impI)
  assume "ok \<and> mem_bytes (hw_mem H h') (flashPos s) (unat (pageSize c)) = page_data c s
        \<and> totalSize c s \<noteq> 0"
  then show "\<exists>s'. write_page c H s = Inr s' \<and> flashPos s' = flashPos s + pageSize c
           \<and> bytesWritten s' = bytesWritten s + pageSize c \<and> retry s' = 0
           \<and> (\<exists>more. calls s' = calls s @ write_call c (flashPos s) (page_data c s) # more)"
    using write_page_success[of c H s h'] wr by simp
next
  assume "\<not> ok \<or> mem_bytes (hw_mem H h') (flashPos s) (unat (pageSize c)) \<noteq> page_data c s"
  then show "\<exists>s'. write_page c H s = Inr s' \<and> flashPos s' = flashPos s
           \<and> bytesWritten s' = bytesWritten s \<and> retry s' = retry s + 1
           \<and> state s' = state s \<and> haveDataInBuffer s' = haveDataInBuffer s
           \<and> readData s' = readData s \<and> hw s' = h'
           \<and> calls s' = calls s @ [write_call c (flashPos s) (page_data c s)]"
    by (rule write_page_failure[OF wr])
next
  assume "state s0 = WritingUpgrade \<and> retry s0 \<le> maxRetries c
          \<and> fetch_block c H s0 = Inr (True, s)"
  then show "writeBinary c H s0 = write_page c H s"
    by (simp add: writeBinary_WritingUpgrade)
next
  assume "haveDataInBuffer s0"
  then show "fetch_block c H s0 = Inr (True, s0)" by (rule fetch_block_buffered)
next
  assume "\<not> haveDataInBuffer s0 \<and> ReadBlock c H s0 = Inr (True, s1)"
  then show "fetch_block c H s0 =
            Inr (True, s1\<lparr>haveDataInBuffer := True, retry := 0, bytesWritten := 0\<rparr>)"
    by (simp add: fetch_block_read)
qed

lemma st_page_facts:
  "flashPos (st_page h) = 0x400000" "hw (st_page h) = h" "retry (st_page h) = 0"
  "bytesWritten (st_page h) = 0" "state (st_page h) = WritingUpgrade"
  "haveDataInBuffer (st_page h)"
  "page_data cfg_file (st_page h) = [0xDE, 0xAD, 0xBE, 0xEF, 0x01, 0x02, 0x03, 0x04]"
  "totalSize cfg_file (st_page h) = 16"
  by (simp_all add: st_page_def start_state_def cfg_file_def page_data_def totalSize_def)

lemma sim_write_primitive:
  "write_primitive cfg_file sim_hardware a bs h = sim_program a bs h"
  by (simp add: write_primitive_def cfg_file_def sim_hardware_def)

theorem C1_witness:
  "(\<exists>s'. writeBinary cfg_file sim_hardware (st_page sim_blank) = Inr s'
        \<and> flashPos s' = 0x400008 \<and> bytesWritten s' = 8 \<and> retry s' = 0)
   \<and> (\<exists>s'. writeBinary cfg_file sim_hardware (st_page (sim_blank\<lparr>sim_flash_works := False\<rparr>)) = Inr s'
        \<and> flashPos s' = 0x400000 \<and> bytesWritten s' = 0 \<and> retry s' = 1
        \<and> state s' = WritingUpgrade \<and> haveDataInBuffer s')
   \<and> (\<exists>s'. writeBinary cfg_file sim_hardware (st_page (sim_blank\<lparr>sim_flash_ok := False\<rparr>)) = Inr s'
        \<and> flashPos s' = 0x400000 \<and> bytesWritten s' = 0 \<and> retry s' = 1
        \<and> state s' = WritingUpgrade \<and> haveDataInBuffer s')"
proof -
  let ?page = "[0xDE, 0xAD, 0xBE, 0xEF, 0x01, 0x02, 0x03, 0x04] :: u8 list"
  let ?H = "sim_hardware"
  have ps: "unat (pageSize cfg_file) = 8" "pageSize cfg_file = 8" "maxRetries cfg_file = 5"
    by (simp_all add: cfg_file_def)
  have mem: "hw_mem ?H = sim_mem" by (simp add: sim_hardware_def)
  have stored: "mem_bytes (store m 0x400000 ?page) 0x400000 8 = ?page" for m
    by (rule mem_bytes_store) simp_all
  have rep: "replicate 8 (0xFF :: u8) = [0xFF, 0xFF, 0xFF, 0xFF, 0xFF, 0xFF, 0xFF, 0xFF]"
    by (simp add: numeral_eq_Suc)
  have blank: "mem_bytes (sim_mem sim_blank) 0x400000 8 \<noteq> ?page"
    unfolding sim_blank_def by (simp add: mem_bytes_const rep)
  have wb: "writeBinary cfg_file ?H (st_page h) = write_page cfg_file ?H (st_page h)" for h
    by (simp add: writeBinary_WritingUpgrade fetch_block_buffered st_page_facts ps)
  define h1 where "h1 = sim_blank\<lparr>sim_mem := store (sim_mem sim_blank) 0x400000 ?page\<rparr>"
  define h2 where "h2 = sim_blank\<lparr>sim_flash_works := False\<rparr>"
  define h3 where "h3 = sim_blank\<lparr>sim_flash_ok := False\<rparr>"
  have wr1: "write_primitive cfg_file ?H (flashPos (st_page sim_blank))
               (page_data cfg_file (st_page sim_blank)) (hw (st_page sim_blank)) = (True, h1)"
    by (simp add: st_page_facts sim_write_primitive sim_program_def sim_blank_def h1_def)
  have wr2: "write_primitive cfg_file ?H (flashPos (st_page h2))
               (page_data cfg_file (st_page h2)) (hw (st_page h2)) = (True, h2)"
    by (simp add: st_page_facts sim_write_primitive sim_program_def sim_blank_def h2_def)
  have wr3: "write_primitive cfg_file ?H (flashPos (st_page h3))
               (page_data cfg_file (st_page h3)) (hw (st_page h3))
             = (False, h3\<lparr>sim_mem := store (sim_mem h3) 0x400000 ?page\<rparr>)"
    by (simp add: st_page_facts sim_write_primitive sim_program_def sim_blank_def h3_def)
  have m1: "mem_bytes (hw_mem ?H h1) (flashPos (st_page sim_blank)) (unat (pageSize cfg_file))
              = page_data cfg_file (st_page sim_blank)"
    by (simp add: st_page_facts ps mem h1_def stored)
  have m2: "mem_bytes (hw_mem ?H h2) (flashPos (st_page h2)) (unat (pageSize cfg_file))
              \<noteq> page_data cfg_file (st_page h2)"
    using blank by (simp add: st_page_facts ps mem h2_def sim_blank_def)
  have 1: "\<exists>s'. write_page cfg_file ?H (st_page sim_blank) = Inr s'
        \<and> flashPos s' = 0x400008 \<and> bytesWritten s' = 8 \<and> retry s' = 0"
    using C1_page_write_then_verify[OF wr1, THEN conjunct1] m1
    by (simp add: st_page_facts ps) blast
  have 2: "\<exists>s'. write_page cfg_file ?H (st_page h2) = Inr s'
        \<and> flashPos s' = 0x400000 \<and> bytesWritten s' = 0 \<and> retry s' = 1
        \<and> state s' = WritingUpgrade \<and> haveDataInBuffer s'"
    using C1_page_write_then_verify[OF wr2, THEN conjunct2, THEN conjunct1] m2
    by (simp add: st_page_facts ps) blast
  have 3: "\<exists>s'. write_page cfg_file ?H (st_page h3) = Inr s'
        \<and> flashPos s' = 0x400000 \<and> bytesWritten s' = 0 \<and> retry s' = 1
        \<and> state s' = WritingUpgrade \<and> haveDataInBuffer s'"
    using C1_page_write_then_verify[OF wr3, THEN conjunct2, THEN conjunct1]
    by (simp add: st_page_facts ps) blast
  show ?thesis
    unfolding wb using 1 2 3 by (simp add: h2_def h3_def)
qed


section \<open>C10: the progress report divides by the size of the image\<close>

lemma ShowProgress_division_by_zero:
  "(exit_of (ShowProgress c s) = Some DivisionByZero) = (totalSize c s = 0)"
  by (simp add: ShowProgress_def exit_of_def)

lemma totalSize_empty_file:
  "\<not> IAP_VIA_SPI c \<Longrightarrow> firmwareFileSize s = 0 \<Longrightarrow> totalSize c s = 0"
  by (simp add: totalSize_def)

lemma openBinary_accepts:
  assumes st: "f_stat H (fwFile s) (hw s) = (Some fsize, h1)"
    and op: "f_open H (fwFile s) h1 = (True, h2)"
    and le: "fsize \<le> (if isUf2File s then (FirmwareFlashEnd c - FirmwareFlashStart c) * 2
                        else FirmwareFlashEnd c - FirmwareFlashStart c)"
  shows "\<exists>s'. openBinary c H s = Inr s' \<and> firmwareFileSize s' = fsize
           \<and> isUf2File s' = isUf2File s"
proof -
  define s1 where "s1 = s\<lparr>hw := h1, calls := calls s @ [Call_f_stat (fwFile s)]\<rparr>"
  have i1: "invoke (Call_f_stat (fwFile s)) (f_stat H (fwFile s)) s = (Some fsize, s1)"
    using st by (simp add: invoke_def s1_def)
  define s2 where "s2 = s1\<lparr>firmwareFileSize := fsize, hw := h2,
                           calls := calls s1 @ [Call_f_open (fwFile s)]\<rparr>"
  have i2: "invoke (Call_f_open (fwFile s1)) (f_open H (fwFile s1)) (s1\<lparr>firmwareFileSize := fsize\<rparr>)
            = (True, s2)"
    using op by (simp add: invoke_def s1_def s2_def)
  have "openBinary c H s = Inr (MessageF (''File '' @ fwFile s2 @ '' opened'') s2)"
    unfolding openBinary_def i1 using le i2
    by (simp add: Let_def s1_def not_less[symmetric])
  then show ?thesis
    by (auto simp add: s2_def s1_def)
qed

text \<open>
  C10: \<open>ShowProgress\<close> divides by \<open>totalSize\<close> and ends in a division by zero exactly
  when that divisor is zero. In the file build the divisor is zero for a file of zero
  bytes. \<open>openBinary\<close> accepts such a file, since it only refuses a file that is larger
  than the region. Then the first page that is written and verified in
  \<open>WritingUpgrade\<close> ends the call of the main loop in the division by zero.
\<close>

theorem C10_progress_divides_by_zero:
  "(exit_of (ShowProgress c s) = Some DivisionByZero) = (totalSize c s = 0)
   \<and> (\<not> IAP_VIA_SPI c \<and> firmwareFileSize s = 0 \<longrightarrow> totalSize c s = 0)
   \<and> (f_stat H (fwFile s) (hw s) = (Some 0, h1) \<and> f_open H (fwFile s) h1 = (True, h2) \<longrightarrow>
        (\<exists>s'. openBinary c H s = Inr s' \<and> firmwareFileSize s' = 0))
   \<and> (state s0 = WritingUpgrade \<and> retry s0 \<le> maxRetries c
        \<and> fetch_block c H s0 = Inr (True, s) \<and> totalSize c s = 0
        \<and> write_primitive c H (flashPos s) (page_data c s) (hw s) = (True, h')
        \<and> mem_bytes (hw_mem H h') (flashPos s) (unat (pageSize c)) = page_data c s \<longrightarrow>
        exit_of (writeBinary c H s0) = Some DivisionByZero)"
proof (intro conjI impI)
  show "(exit_of (ShowProgress c s) = Some DivisionByZero) = (totalSize c s = 0)"
    by (rule ShowProgress_division_by_zero)
next
  assume "\<not> IAP_VIA_SPI c \<and> firmwareFileSize s = 0"
  then show "totalSize c s = 0" by (simp add: totalSize_empty_file)
next
  assume a: "f_stat H (fwFile s) (hw s) = (Some 0, h1) \<and> f_open H (fwFile s) h1 = (True, h2)"
  have "\<exists>s'. openBinary c H s = Inr s' \<and> firmwareFileSize s' = 0 \<and> isUf2File s' = isUf2File s"
    by (rule openBinary_accepts[where ?h1.0 = h1 and ?h2.0 = h2]) (use a in simp_all)
  then show "\<exists>s'. openBinary c H s = Inr s' \<and> firmwareFileSize s' = 0" by blast
next
  assume a: "state s0 = WritingUpgrade \<and> retry s0 \<le> maxRetries c
        \<and> fetch_block c H s0 = Inr (True, s) \<and> totalSize c s = 0
        \<and> write_primitive c H (flashPos s) (page_data c s) (hw s) = (True, h')
        \<and> mem_bytes (hw_mem H h') (flashPos s) (unat (pageSize c)) = page_data c s"
  then have "writeBinary c H s0 = write_page c H s"
    by (simp add: writeBinary_WritingUpgrade)
  moreover have "exit_of (write_page c H s) = Some DivisionByZero"
    using a by (intro write_page_division_by_zero[where h' = h']) simp_all
  ultimately show "exit_of (writeBinary c H s0) = Some DivisionByZero" by simp
qed

lemma st_empty_fetch:
  "fetch_block cfg_file sim_hardware st_empty_write = Inr (True, st_empty_fetched)"
  by (simp add: fetch_block_def ReadBlock_def ReadBlock_file_def st_empty_write_def
        st_empty_fetched_def start_state_def cfg_file_def invoke_def sim_hardware_def
        sim_blank_def memcpy_def memset_def Let_def)

theorem C10_witness:
  "(\<exists>s'. openBinary cfg_file sim_hardware (start_state cfg_file sim_blank) = Inr s'
         \<and> firmwareFileSize s' = 0)
   \<and> exit_of (writeBinary cfg_file sim_hardware st_empty_write) = Some DivisionByZero"
proof -
  let ?s0 = "start_state cfg_file sim_blank"
  have fs: "f_stat sim_hardware (fwFile ?s0) (hw ?s0) = (Some 0, sim_blank)
            \<and> f_open sim_hardware (fwFile ?s0) sim_blank = (True, sim_blank)"
    by (simp add: sim_hardware_def start_state_def sim_blank_def)
  have wr: "state st_empty_write = WritingUpgrade
        \<and> retry st_empty_write \<le> maxRetries cfg_file
        \<and> fetch_block cfg_file sim_hardware st_empty_write = Inr (True, st_empty_fetched)
        \<and> totalSize cfg_file st_empty_fetched = 0
        \<and> write_primitive cfg_file sim_hardware (flashPos st_empty_fetched)
             (page_data cfg_file st_empty_fetched) (hw st_empty_fetched)
           = (True, sim_blank\<lparr>sim_pos := 16,
                sim_mem := store (\<lambda>a. 0xFF) 0x400000 (replicate 8 0xFF)\<rparr>)
        \<and> mem_bytes (hw_mem sim_hardware (sim_blank\<lparr>sim_pos := 16,
                sim_mem := store (\<lambda>a. 0xFF) 0x400000 (replicate 8 0xFF)\<rparr>))
             (flashPos st_empty_fetched) (unat (pageSize cfg_file))
           = page_data cfg_file st_empty_fetched"
    by (simp add: st_empty_fetch mem_bytes_store)
       (simp add: st_empty_fetched_def st_empty_write_def start_state_def cfg_file_def
          totalSize_def write_primitive_def sim_hardware_def sim_program_def sim_blank_def
          page_data_def mem_bytes_store)
  from C10_progress_divides_by_zero[of cfg_file ?s0 sim_hardware sim_blank sim_blank, THEN conjunct2, THEN conjunct2, THEN conjunct1] fs
  have 1: "\<exists>s'. openBinary cfg_file sim_hardware ?s0 = Inr s' \<and> firmwareFileSize s' = 0"
    by blast
  from C10_progress_divides_by_zero[of cfg_file st_empty_fetched sim_hardware _ _ st_empty_write,
      THEN conjunct2, THEN conjunct2, THEN conjunct2] wr
  have 2: "exit_of (writeBinary cfg_file sim_hardware st_empty_write) = Some DivisionByZero"
    by blast
  from 1 2 show ?thesis by blast
qed


section \<open>C6: erased sectors are not erased again\<close>

text \<open>A 32-bit load is all ones exactly when its four bytes are \<open>0xFF\<close>.\<close>

lemma byte_all_ones: "(a :: u8) = 0xFF \<longleftrightarrow> (\<forall>k<8. bit a k)"
proof -
  have m1: "(0xFF :: u8) = - 1" by simp
  show ?thesis
    unfolding m1 by (auto simp add: bit_eq_iff dest: bit_imp_le_length)
qed

lemma four_bytes_all_ones:
  fixes a b c d :: u8
  shows "(ucast a OR push_bit 8 (ucast b) OR push_bit 16 (ucast c) OR push_bit 24 (ucast d) :: u32)
           = 0xFFFFFFFF
         \<longleftrightarrow> a = 0xFF \<and> b = 0xFF \<and> c = 0xFF \<and> d = 0xFF"
    (is "?w = _ \<longleftrightarrow> _")
proof
  assume "a = 0xFF \<and> b = 0xFF \<and> c = 0xFF \<and> d = 0xFF"
  then show "?w = 0xFFFFFFFF" by simp
next
  assume eq: "?w = 0xFFFFFFFF"
  have m1: "(0xFFFFFFFF :: u32) = - 1" by simp
  have all: "bit ?w n" if "n < 32" for n
    using that unfolding eq m1 by simp
  have "bit a k" if "k < 8" for k
    using all[of k] that
    by (auto simp add: bit_or_iff bit_push_bit_iff bit_ucast_iff)
  moreover have "bit b k" if "k < 8" for k
    using all[of "8 + k"] that
    by (auto simp add: bit_or_iff bit_push_bit_iff bit_ucast_iff dest: bit_imp_le_length)
  moreover have "bit c k" if "k < 8" for k
    using all[of "16 + k"] that
    by (auto simp add: bit_or_iff bit_push_bit_iff bit_ucast_iff dest: bit_imp_le_length)
  moreover have "bit d k" if "k < 8" for k
    using all[of "24 + k"] that
    by (auto simp add: bit_or_iff bit_push_bit_iff bit_ucast_iff dest: bit_imp_le_length)
  ultimately show "a = 0xFF \<and> b = 0xFF \<and> c = 0xFF \<and> d = 0xFF"
    by (simp add: byte_all_ones)
qed

lemma less_4_cases: "(\<forall>j<4. P (j::nat)) \<longleftrightarrow> P 0 \<and> P 1 \<and> P 2 \<and> P 3"
proof -
  have "j < 4 \<longleftrightarrow> j = 0 \<or> j = 1 \<or> j = 2 \<or> j = 3" for j :: nat by arith
  then show ?thesis by auto
qed

lemma load32_all_ones:
  "load32 m p = 0xFFFFFFFF \<longleftrightarrow> (\<forall>j<4. m (p + of_nat j) = 0xFF)"
  unfolding load32_def four_bytes_all_ones less_4_cases by simp

text \<open>
  When the limit is a whole number of words above the start and the addresses do not wrap
  around, the loop of \<open>IsSectorErased\<close> returns, and it returns whether every byte
  is \<open>0xFF\<close>.
\<close>

lemma IsSectorErased_from_words:
  "unat p + 4 * n = unat lim \<Longrightarrow>
   IsSectorErased_from m lim p = Some (\<forall>i<4 * n. m (p + of_nat i) = 0xFF)"
proof (induction n arbitrary: p)
  case 0
  then have "\<not> p < lim" by (simp add: word_less_nat_alt)
  then show ?case by (subst IsSectorErased_from.simps) simp
next
  case (Suc n)
  from Suc.prems have lt: "p < lim" by (simp add: word_less_nat_alt)
  have lim: "unat lim < 2 ^ 32" using unsigned_less[of lim] by simp
  with Suc.prems have p4: "unat (p + 4) = unat p + 4"
    by (simp add: unat_word_ariths)
  show ?case
  proof (cases "load32 m p = 0xFFFFFFFF")
    case False
    then obtain j where "j < 4" "m (p + of_nat j) \<noteq> 0xFF"
      unfolding load32_all_ones by blast
    then have "\<not> (\<forall>i<4 * Suc n. m (p + of_nat i) = 0xFF)"
      by (metis mult_Suc_right trans_less_add1)
    then show ?thesis
      using lt False by (subst IsSectorErased_from.simps) simp
  next
    case True
    then have first: "\<forall>j<4. m (p + of_nat j) = 0xFF"
      unfolding load32_all_ones .
    have rest: "IsSectorErased_from m lim (p + 4) = Some (\<forall>i<4 * n. m (p + 4 + of_nat i) = 0xFF)"
      by (rule Suc.IH) (use Suc.prems p4 in simp)
    have "(\<forall>i<4 * Suc n. m (p + of_nat i) = 0xFF) \<longleftrightarrow> (\<forall>i<4 * n. m (p + 4 + of_nat i) = 0xFF)"
    proof
      assume a: "\<forall>i<4 * Suc n. m (p + of_nat i) = 0xFF"
      show "\<forall>i<4 * n. m (p + 4 + of_nat i) = 0xFF"
      proof (intro allI impI)
        fix i assume "i < 4 * n"
        then have "4 + i < 4 * Suc n" by simp
        then have "m (p + of_nat (4 + i)) = 0xFF" using a by blast
        moreover have "p + of_nat (4 + i) = p + 4 + of_nat i"
          by (simp only: of_nat_add of_nat_numeral add.assoc)
        ultimately show "m (p + 4 + of_nat i) = 0xFF" by (simp only:)
      qed
    next
      assume a: "\<forall>i<4 * n. m (p + 4 + of_nat i) = 0xFF"
      show "\<forall>i<4 * Suc n. m (p + of_nat i) = 0xFF"
      proof (intro allI impI)
        fix i assume i: "i < 4 * Suc n"
        show "m (p + of_nat i) = 0xFF"
        proof (cases "i < 4")
          case True
          then show ?thesis using first by blast
        next
          case False
          then have "i - 4 < 4 * n" and "i = 4 + (i - 4)" using i by simp_all
          then have "m (p + 4 + of_nat (i - 4)) = 0xFF"
            and "p + of_nat i = p + 4 + of_nat (i - 4)"
            using a by (blast, metis of_nat_add of_nat_numeral add.assoc)
          then show ?thesis by (simp only:)
        qed
      qed
    qed
    then show ?thesis
      using lt True rest by (subst IsSectorErased_from.simps) simp
  qed
qed

lemma IsSectorErased_bytes:
  assumes "unat addr + unat sz < 2 ^ 32" "4 dvd unat sz"
  shows "IsSectorErased m addr sz = Some (\<forall>i<unat sz. m (addr + of_nat i) = 0xFF)"
proof -
  from assms(2) obtain n where n: "unat sz = 4 * n" by (auto simp add: dvd_def)
  have "unat (addr + sz) = unat addr + unat sz"
    using assms(1) by (simp add: unat_word_ariths)
  then have "unat addr + 4 * n = unat (addr + sz)" using n by simp
  then show ?thesis
    unfolding IsSectorErased_def n by (rule IsSectorErased_from_words)
qed


lemma erase_region_end_frame [simp]:
  "calls (erase_region_end c s) = calls s"
  "hw (erase_region_end c s) = hw s"
  "retry (erase_region_end c s) = retry s"
  by (simp_all add: erase_region_end_def MessageF_fields)

lemma erase_region_end_inside:
  "flashPos s < FirmwareFlashEnd c \<Longrightarrow> erase_region_end c s = s"
  by (simp add: erase_region_end_def not_le[symmetric])

lemma erase_region_end_outside:
  "FirmwareFlashEnd c \<le> flashPos s \<Longrightarrow>
   flashPos (erase_region_end c s) = FirmwareFlashStart c
   \<and> state (erase_region_end c s) = WritingUpgrade
   \<and> \<not> haveDataInBuffer (erase_region_end c s)"
  by (simp add: erase_region_end_def MessageF_fields)

text \<open>Where the cursor and the state are after a sector is found erased.\<close>

lemma erase_region_end_advanced:
  assumes "state s = ErasingFlash"
  shows "(if FirmwareFlashEnd c \<le> flashPos s + sz then
            flashPos (erase_region_end c (s\<lparr>retry := 0, flashPos := flashPos s + sz\<rparr>))
              = FirmwareFlashStart c
            \<and> state (erase_region_end c (s\<lparr>retry := 0, flashPos := flashPos s + sz\<rparr>))
              = WritingUpgrade
            \<and> \<not> haveDataInBuffer (erase_region_end c (s\<lparr>retry := 0, flashPos := flashPos s + sz\<rparr>))
          else
            flashPos (erase_region_end c (s\<lparr>retry := 0, flashPos := flashPos s + sz\<rparr>))
              = flashPos s + sz
            \<and> state (erase_region_end c (s\<lparr>retry := 0, flashPos := flashPos s + sz\<rparr>))
              = ErasingFlash)"
  using assms by (simp add: erase_region_end_def MessageF_fields)

lemma writeBinary_ErasingFlash:
  "state s = ErasingFlash \<Longrightarrow> chip c \<noteq> SAM3X \<Longrightarrow> retry s \<le> maxRetries c \<Longrightarrow>
   writeBinary c H s = case_ErasingFlash c H s"
  by (simp add: writeBinary_def not_less[symmetric])

lemma erase_skipped:
  assumes st: "state s = ErasingFlash"
    and er: "IsSectorErased (hw_mem H (hw s)) (flashPos s) (sectorSize c (flashPos s)) = Some True"
  shows "\<exists>s'. case_ErasingFlash c H s = Inr s' \<and> calls s' = calls s \<and> hw s' = hw s
           \<and> retry s' = 0
           \<and> (if FirmwareFlashEnd c \<le> flashPos s + sectorSize c (flashPos s) then
                 flashPos s' = FirmwareFlashStart c \<and> state s' = WritingUpgrade
                 \<and> \<not> haveDataInBuffer s'
               else flashPos s' = flashPos s + sectorSize c (flashPos s)
                 \<and> state s' = ErasingFlash)"
proof -
  define s0 where "s0 = (if retry s \<noteq> 0
      then MessageF (''Erase retry #'' @ dec (unat (retry s))) s else s)"
  have f: "flashPos s0 = flashPos s" "hw s0 = hw s" "calls s0 = calls s" "state s0 = ErasingFlash"
    using st by (simp_all add: s0_def MessageF_fields)
  have "case_ErasingFlash c H s =
          Inr (erase_region_end c (s0\<lparr>retry := 0, flashPos := flashPos s0 + sectorSize c (flashPos s0)\<rparr>))"
    unfolding case_ErasingFlash_def s0_def[symmetric] Let_def
    using er by (simp add: f erase_recheck_def)
  then show ?thesis
    using erase_region_end_advanced[OF f(4), of c "sectorSize c (flashPos s)", unfolded f(1)]
    by (simp add: f)
qed

lemma erase_invoked_and_verified:
  assumes st: "state s = ErasingFlash"
    and er: "IsSectorErased (hw_mem H (hw s)) (flashPos s) (sectorSize c (flashPos s)) = Some False"
    and ep: "erase_primitive c H (flashPos s) (hw s) = (True, h')"
    and er': "IsSectorErased (hw_mem H h') (flashPos s) (sectorSize c (flashPos s)) = Some True"
  shows "\<exists>s'. case_ErasingFlash c H s = Inr s'
           \<and> calls s' = calls s @ [erase_call c (flashPos s)] \<and> hw s' = h'
           \<and> retry s' = 0
           \<and> (if FirmwareFlashEnd c \<le> flashPos s + sectorSize c (flashPos s) then
                 flashPos s' = FirmwareFlashStart c \<and> state s' = WritingUpgrade
                 \<and> \<not> haveDataInBuffer s'
               else flashPos s' = flashPos s + sectorSize c (flashPos s)
                 \<and> state s' = ErasingFlash)"
proof -
  define s0 where "s0 = (if retry s \<noteq> 0
      then MessageF (''Erase retry #'' @ dec (unat (retry s))) s else s)"
  have f: "flashPos s0 = flashPos s" "hw s0 = hw s" "calls s0 = calls s" "state s0 = ErasingFlash"
    using st by (simp_all add: s0_def MessageF_fields)
  define s1 where "s1 = s0\<lparr>hw := h', calls := calls s0 @ [erase_call c (flashPos s0)]\<rparr>"
  have inv: "invoke (erase_call c (flashPos s0)) (erase_primitive c H (flashPos s0)) s0 = (True, s1)"
    using ep by (simp add: invoke_def f s1_def)
  have f1: "flashPos s1 = flashPos s" "hw s1 = h'" "state s1 = ErasingFlash"
    "calls s1 = calls s @ [erase_call c (flashPos s)]"
    by (simp_all add: s1_def f)
  have "case_ErasingFlash c H s =
          Inr (erase_region_end c (s1\<lparr>retry := 0, flashPos := flashPos s1 + sectorSize c (flashPos s1)\<rparr>))"
    unfolding case_ErasingFlash_def s0_def[symmetric] Let_def
    using er er' inv by (simp add: f f1 erase_recheck_def)
  then show ?thesis
    using erase_region_end_advanced[OF f1(3), of c "sectorSize c (flashPos s)", unfolded f1(1)]
    by (simp add: f1)
qed

lemma erase_failed:
  assumes st: "state s = ErasingFlash"
    and er: "IsSectorErased (hw_mem H (hw s)) (flashPos s) (sectorSize c (flashPos s)) = Some False"
    and ep: "erase_primitive c H (flashPos s) (hw s) = (ok, h')"
    and bad: "\<not> ok \<or> IsSectorErased (hw_mem H h') (flashPos s) (sectorSize c (flashPos s)) = Some False"
    and inside: "flashPos s < FirmwareFlashEnd c"
  shows "\<exists>s'. case_ErasingFlash c H s = Inr s'
           \<and> calls s' = calls s @ [erase_call c (flashPos s)] \<and> hw s' = h'
           \<and> retry s' = retry s + 1 \<and> flashPos s' = flashPos s \<and> state s' = ErasingFlash"
proof -
  define s0 where "s0 = (if retry s \<noteq> 0
      then MessageF (''Erase retry #'' @ dec (unat (retry s))) s else s)"
  have f: "flashPos s0 = flashPos s" "hw s0 = hw s" "calls s0 = calls s" "state s0 = ErasingFlash"
    "retry s0 = retry s"
    using st by (simp_all add: s0_def MessageF_fields)
  define s1 where "s1 = s0\<lparr>hw := h', calls := calls s0 @ [erase_call c (flashPos s0)]\<rparr>"
  have inv: "invoke (erase_call c (flashPos s0)) (erase_primitive c H (flashPos s0)) s0 = (ok, s1)"
    using ep by (simp add: invoke_def f s1_def)
  have f1: "flashPos s1 = flashPos s" "hw s1 = h'" "state s1 = ErasingFlash"
    "calls s1 = calls s @ [erase_call c (flashPos s)]" "retry s1 = retry s"
    by (simp_all add: s1_def f)
  have "case_ErasingFlash c H s = Inr (erase_region_end c (s1\<lparr>retry := retry s1 + 1\<rparr>))"
    unfolding case_ErasingFlash_def s0_def[symmetric] Let_def
    using er bad inv by (cases ok) (auto simp add: f f1 erase_recheck_def)
  moreover have "erase_region_end c (s1\<lparr>retry := retry s1 + 1\<rparr>) = s1\<lparr>retry := retry s1 + 1\<rparr>"
    by (rule erase_region_end_inside) (simp add: f1 inside)
  ultimately show ?thesis
    by (simp add: f1)
qed


text \<open>
  C6: in \<open>ErasingFlash\<close> (on a build that has the state, with retries left), when the
  sector at the cursor reads as erased, no driver is called and the hardware is left as
  it is; when the sector does not read as erased, the erase primitive is called once.
  After the skip, or after an erase that reports success, the sector is read again, and
  only if it then reads as erased is \<open>retry\<close> cleared and the cursor advanced by the
  size of the sector (at the end of the region the cursor goes back to the start, the
  buffered block is dropped and the state becomes \<open>WritingUpgrade\<close>). When the erase
  reports a failure, or the sector still does not read as erased, \<open>retry\<close> is
  incremented and the cursor is unchanged; the state stays \<open>ErasingFlash\<close> for a
  cursor inside the region. For a sector that is a whole number of words and does not
  wrap around the address space, reading as erased means that every byte is \<open>0xFF\<close>.
\<close>

theorem C6_erase_only_when_needed:
  assumes st: "state s = ErasingFlash" and chip: "chip c \<noteq> SAM3X"
    and retries: "retry s \<le> maxRetries c"
  shows
    "(IsSectorErased (hw_mem H (hw s)) (flashPos s) (sectorSize c (flashPos s)) = Some True \<longrightarrow>
        (\<exists>s'. writeBinary c H s = Inr s' \<and> calls s' = calls s \<and> hw s' = hw s
           \<and> retry s' = 0
           \<and> (if FirmwareFlashEnd c \<le> flashPos s + sectorSize c (flashPos s) then
                 flashPos s' = FirmwareFlashStart c \<and> state s' = WritingUpgrade
                 \<and> \<not> haveDataInBuffer s'
               else flashPos s' = flashPos s + sectorSize c (flashPos s)
                 \<and> state s' = ErasingFlash)))
     \<and> (IsSectorErased (hw_mem H (hw s)) (flashPos s) (sectorSize c (flashPos s)) = Some False
          \<and> erase_primitive c H (flashPos s) (hw s) = (True, h')
          \<and> IsSectorErased (hw_mem H h') (flashPos s) (sectorSize c (flashPos s)) = Some True \<longrightarrow>
        (\<exists>s'. writeBinary c H s = Inr s'
           \<and> calls s' = calls s @ [erase_call c (flashPos s)] \<and> hw s' = h'
           \<and> retry s' = 0
           \<and> (if FirmwareFlashEnd c \<le> flashPos s + sectorSize c (flashPos s) then
                 flashPos s' = FirmwareFlashStart c \<and> state s' = WritingUpgrade
                 \<and> \<not> haveDataInBuffer s'
               else flashPos s' = flashPos s + sectorSize c (flashPos s)
                 \<and> state s' = ErasingFlash)))
     \<and> (IsSectorErased (hw_mem H (hw s)) (flashPos s) (sectorSize c (flashPos s)) = Some False
          \<and> erase_primitive c H (flashPos s) (hw s) = (ok, h')
          \<and> (\<not> ok \<or> IsSectorErased (hw_mem H h') (flashPos s) (sectorSize c (flashPos s))
                        = Some False)
          \<and> flashPos s < FirmwareFlashEnd c \<longrightarrow>
        (\<exists>s'. writeBinary c H s = Inr s'
           \<and> calls s' = calls s @ [erase_call c (flashPos s)] \<and> hw s' = h'
           \<and> retry s' = retry s + 1 \<and> flashPos s' = flashPos s \<and> state s' = ErasingFlash))
     \<and> (unat (flashPos s) + unat (sectorSize c (flashPos s)) < 2 ^ 32
          \<and> 4 dvd unat (sectorSize c (flashPos s)) \<longrightarrow>
        IsSectorErased m (flashPos s) (sectorSize c (flashPos s))
          = Some (\<forall>i<unat (sectorSize c (flashPos s)). m (flashPos s + of_nat i) = 0xFF))"
proof -
  have wb: "writeBinary c H s = case_ErasingFlash c H s"
    using st chip retries by (rule writeBinary_ErasingFlash)
  show ?thesis
    unfolding wb
  proof (intro conjI impI)
    assume "IsSectorErased (hw_mem H (hw s)) (flashPos s) (sectorSize c (flashPos s)) = Some True"
    then show "\<exists>s'. case_ErasingFlash c H s = Inr s' \<and> calls s' = calls s \<and> hw s' = hw s
           \<and> retry s' = 0
           \<and> (if FirmwareFlashEnd c \<le> flashPos s + sectorSize c (flashPos s) then
                 flashPos s' = FirmwareFlashStart c \<and> state s' = WritingUpgrade
                 \<and> \<not> haveDataInBuffer s'
               else flashPos s' = flashPos s + sectorSize c (flashPos s)
                 \<and> state s' = ErasingFlash)"
      by (rule erase_skipped[OF st])
  next
    assume a: "IsSectorErased (hw_mem H (hw s)) (flashPos s) (sectorSize c (flashPos s)) = Some False
          \<and> erase_primitive c H (flashPos s) (hw s) = (True, h')
          \<and> IsSectorErased (hw_mem H h') (flashPos s) (sectorSize c (flashPos s)) = Some True"
    show "\<exists>s'. case_ErasingFlash c H s = Inr s'
           \<and> calls s' = calls s @ [erase_call c (flashPos s)] \<and> hw s' = h'
           \<and> retry s' = 0
           \<and> (if FirmwareFlashEnd c \<le> flashPos s + sectorSize c (flashPos s) then
                 flashPos s' = FirmwareFlashStart c \<and> state s' = WritingUpgrade
                 \<and> \<not> haveDataInBuffer s'
               else flashPos s' = flashPos s + sectorSize c (flashPos s)
                 \<and> state s' = ErasingFlash)"
      by (rule erase_invoked_and_verified[OF st]) (use a in simp_all)
  next
    assume a: "IsSectorErased (hw_mem H (hw s)) (flashPos s) (sectorSize c (flashPos s)) = Some False
          \<and> erase_primitive c H (flashPos s) (hw s) = (ok, h')
          \<and> (\<not> ok \<or> IsSectorErased (hw_mem H h') (flashPos s) (sectorSize c (flashPos s))
                        = Some False)
          \<and> flashPos s < FirmwareFlashEnd c"
    show "\<exists>s'. case_ErasingFlash c H s = Inr s'
           \<and> calls s' = calls s @ [erase_call c (flashPos s)] \<and> hw s' = h'
           \<and> retry s' = retry s + 1 \<and> flashPos s' = flashPos s \<and> state s' = ErasingFlash"
      by (rule erase_failed[OF st, where ok = ok]) (use a in simp_all)
  next
    assume "unat (flashPos s) + unat (sectorSize c (flashPos s)) < 2 ^ 32
          \<and> 4 dvd unat (sectorSize c (flashPos s))"
    then show "IsSectorErased m (flashPos s) (sectorSize c (flashPos s))
          = Some (\<forall>i<unat (sectorSize c (flashPos s)). m (flashPos s + of_nat i) = 0xFF)"
      by (simp add: IsSectorErased_bytes)
  qed
qed

lemma store_hit: "i < length bs \<Longrightarrow> i < 2 ^ 32 \<Longrightarrow> store m a bs (a + of_nat i) = bs ! i"
  by (simp add: store_def unat_of_nat)

lemma st_erase_facts:
  "state (st_erase h) = ErasingFlash" "chip cfg_spi \<noteq> SAM3X"
  "retry (st_erase h) \<le> maxRetries cfg_spi" "flashPos (st_erase h) = 0x400000"
  "sectorSize cfg_spi 0x400000 = 16" "hw (st_erase h) = h" "calls (st_erase h) = []"
  "retry (st_erase h) = 0" "FirmwareFlashEnd cfg_spi = 0x400020"
  "erase_primitive cfg_spi sim_hardware 0x400000 = sim_program 0x400000 (replicate 16 0xFF)"
  "erase_call cfg_spi 0x400000 = Call_Flash_Erase 0x400000 16"
  "hw_mem sim_hardware = sim_mem"
  by (simp_all add: st_erase_def start_state_def cfg_spi_def cfg_file_def sectorSize_def
        erase_primitive_def erase_call_def sim_hardware_def)

theorem C6_witness:
  "(\<exists>s'. writeBinary cfg_spi sim_hardware (st_erase sim_blank) = Inr s'
         \<and> calls s' = [] \<and> retry s' = 0 \<and> flashPos s' = 0x400010 \<and> state s' = ErasingFlash)
   \<and> (\<exists>s'. writeBinary cfg_spi sim_hardware (st_erase sim_dirty) = Inr s'
         \<and> calls s' = [Call_Flash_Erase 0x400000 16] \<and> retry s' = 0
         \<and> flashPos s' = 0x400010 \<and> state s' = ErasingFlash)
   \<and> (\<exists>s'. writeBinary cfg_spi sim_hardware (st_erase (sim_dirty\<lparr>sim_flash_works := False\<rparr>)) = Inr s'
         \<and> calls s' = [Call_Flash_Erase 0x400000 16] \<and> retry s' = 1
         \<and> flashPos s' = 0x400000 \<and> state s' = ErasingFlash)"
proof -
  note C6 = C6_erase_only_when_needed[where c = cfg_spi and H = sim_hardware]
  have erased: "IsSectorErased m 0x400000 16 = Some (\<forall>i<16. m (0x400000 + of_nat i) = 0xFF)" for m
    using C6[where s = "st_erase sim_blank" and m = m, OF st_erase_facts(1-3),
             THEN conjunct2, THEN conjunct2, THEN conjunct2]
    by (simp add: st_erase_facts)
  have e_blank: "IsSectorErased (sim_mem sim_blank) 0x400000 16 = Some True"
    unfolding erased by (simp add: sim_blank_def)
  have e_dirty: "IsSectorErased (sim_mem sim_dirty) 0x400000 16 = Some False"
    "IsSectorErased (sim_mem (sim_dirty\<lparr>sim_flash_works := False\<rparr>)) 0x400000 16 = Some False"
    unfolding erased by (simp_all add: sim_dirty_def sim_blank_def) (rule exI[of _ 0], simp)+
  have e_after: "IsSectorErased (store m 0x400000 (replicate 16 0xFF)) 0x400000 16 = Some True" for m
    unfolding erased by (simp add: store_hit)
  have 1: "\<exists>s'. writeBinary cfg_spi sim_hardware (st_erase sim_blank) = Inr s'
         \<and> calls s' = [] \<and> retry s' = 0 \<and> flashPos s' = 0x400010 \<and> state s' = ErasingFlash"
    using C6[where s = "st_erase sim_blank", OF st_erase_facts(1-3), THEN conjunct1] e_blank
    by (simp add: st_erase_facts) blast
  have 2: "\<exists>s'. writeBinary cfg_spi sim_hardware (st_erase sim_dirty) = Inr s'
         \<and> calls s' = [Call_Flash_Erase 0x400000 16] \<and> retry s' = 0
         \<and> flashPos s' = 0x400010 \<and> state s' = ErasingFlash"
    using C6[where s = "st_erase sim_dirty"
               and h' = "sim_dirty\<lparr>sim_mem := store (sim_mem sim_dirty) 0x400000 (replicate 16 0xFF)\<rparr>",
             OF st_erase_facts(1-3), THEN conjunct2, THEN conjunct1] e_dirty e_after
    by (simp add: st_erase_facts sim_program_def sim_dirty_def sim_blank_def) blast
  have 3: "\<exists>s'. writeBinary cfg_spi sim_hardware (st_erase (sim_dirty\<lparr>sim_flash_works := False\<rparr>)) = Inr s'
         \<and> calls s' = [Call_Flash_Erase 0x400000 16] \<and> retry s' = 1
         \<and> flashPos s' = 0x400000 \<and> state s' = ErasingFlash"
    using C6[where s = "st_erase (sim_dirty\<lparr>sim_flash_works := False\<rparr>)"
               and h' = "sim_dirty\<lparr>sim_flash_works := False\<rparr>" and ok = True,
             OF st_erase_facts(1-3), THEN conjunct2, THEN conjunct2, THEN conjunct1] e_dirty
    by (simp add: st_erase_facts sim_program_def sim_dirty_def sim_blank_def) blast
  from 1 2 3 show ?thesis by blast
qed

end
